theory Spec2Isabelle
  imports Main "HOL-Library.Word"
begin

section \<open>JavaScript values\<close>

text \<open>
  A JavaScript string is a sequence of 16-bit code units (\<open>length\<close> counts code units, as
  \<open>String.prototype.length\<close> does); a Node \<open>Buffer\<close> is a sequence of bytes. String
  literals of the source are written \<open>js ''...''\<close>. Messages of the JSON error payloads
  are compile-time constants and stay plain strings.
\<close>

type_synonym byte = "8 word"
type_synonym Buffer = "byte list"
type_synonym code_unit = "16 word"
type_synonym jsstring = "code_unit list"

definition js :: "string \<Rightarrow> jsstring" where
  "js s = map (\<lambda>c. of_nat (of_char c)) s"

text \<open>\<open>!s\<close> on an optional string: \<open>undefined\<close> and the empty string are falsy.\<close>

definition falsy :: "jsstring option \<Rightarrow> bool" where
  "falsy v = (case v of None \<Rightarrow> True | Some s \<Rightarrow> s = [])"

text \<open>\<open>h.startsWith(p)\<close> and \<open>h.substring(n)\<close>.\<close>

definition startsWith :: "jsstring \<Rightarrow> jsstring \<Rightarrow> bool" where
  "startsWith h p = (take (length p) h = p)"

definition substring :: "jsstring \<Rightarrow> nat \<Rightarrow> jsstring" where
  "substring h n = drop n h"

text \<open>
  The operating system's random source, as a stream of bytes: \<open>randomBytes n\<close> consumes the
  next \<open>n\<close> bytes of the stream.
\<close>

type_synonym rng = "nat \<Rightarrow> byte"

definition randomBytes :: "nat \<Rightarrow> rng \<Rightarrow> Buffer \<times> rng" where
  "randomBytes n g = (map g [0..<n], \<lambda>i. g (n + i))"

subsection \<open>The hex codec of Buffer\<close>

text \<open>
  \<open>buf.toString('hex')\<close> writes two lowercase digits per byte. \<open>Buffer.from(s, 'hex')\<close>
  reads pairs of digits of either case and stops at the first pair that is not hex; a
  trailing single digit is dropped. The decoder looks at the low byte of each code unit
  only.
\<close>

definition hexDigit :: "nat \<Rightarrow> code_unit" where
  "hexDigit n = (if n < 10 then of_nat (48 + n) else of_nat (87 + n))"

definition hexValue :: "code_unit \<Rightarrow> nat option" where
  "hexValue c =
     (let n = unat c mod 256 in
      if 48 \<le> n \<and> n \<le> 57 then Some (n - 48)
      else if 97 \<le> n \<and> n \<le> 102 then Some (n - 87)
      else if 65 \<le> n \<and> n \<le> 70 then Some (n - 55)
      else None)"

definition toHex :: "Buffer \<Rightarrow> jsstring" where
  "toHex b = concat (map (\<lambda>x. [hexDigit (unat x div 16), hexDigit (unat x mod 16)]) b)"

fun fromHex :: "jsstring \<Rightarrow> Buffer" where
  "fromHex (h # l # rest) =
     (case hexValue h of
        None \<Rightarrow> []
      | Some a \<Rightarrow>
          (case hexValue l of
             None \<Rightarrow> []
           | Some b \<Rightarrow> of_nat (16 * a + b) # fromHex rest))"
| "fromHex _ = []"

subsection \<open>The UTF-8 codec of Buffer\<close>

text \<open>
  The \<open>'utf8'\<close> input encoding (\<open>Buffer.from(s, 'utf8')\<close>, \<open>cipher.update(s, 'utf8', ...)\<close>)
  reads the string as UTF-16 and writes each code point in UTF-8; a surrogate that is
  not half of a pair is written as U+FFFD. The \<open>'utf8'\<close> output encoding decodes as the
  WHATWG decoder does: every maximal ill-formed part of the input becomes one U+FFFD,
  and the byte that ended it is read again as the start of a sequence.
\<close>

definition is_high :: "nat \<Rightarrow> bool" where
  "is_high n = (55296 \<le> n \<and> n < 56320)"

definition is_low :: "nat \<Rightarrow> bool" where
  "is_low n = (56320 \<le> n \<and> n < 57344)"

fun code_points :: "jsstring \<Rightarrow> nat list" where
  "code_points [] = []"
| "code_points [u] = [if is_high (unat u) \<or> is_low (unat u) then 65533 else unat u]"
| "code_points (u # l # rest) =
     (if is_high (unat u) \<and> is_low (unat l)
      then (65536 + (unat u - 55296) * 1024 + (unat l - 56320)) # code_points rest
      else (if is_high (unat u) \<or> is_low (unat u) then 65533 else unat u)
           # code_points (l # rest))"

definition utf8_of_code_point :: "nat \<Rightarrow> Buffer" where
  "utf8_of_code_point c =
     (if c < 128 then [of_nat c]
      else if c < 2048 then [of_nat (192 + c div 64), of_nat (128 + c mod 64)]
      else if c < 65536
        then [of_nat (224 + c div 4096), of_nat (128 + c div 64 mod 64), of_nat (128 + c mod 64)]
      else [of_nat (240 + c div 262144), of_nat (128 + c div 4096 mod 64),
            of_nat (128 + c div 64 mod 64), of_nat (128 + c mod 64)])"

definition node_utf8_encode :: "jsstring \<Rightarrow> Buffer" where
  "node_utf8_encode s = concat (map utf8_of_code_point (code_points s))"

text \<open>
  What a byte starts when no sequence is open: a code point of its own, a sequence
  (\<open>Begin c k lo hi\<close>: the bits read so far, the number of continuation bytes still
  needed, and the bounds of the next one), or nothing valid.
\<close>

datatype lead = Emit nat | Begin nat nat nat nat | Bad

definition utf8_lead :: "nat \<Rightarrow> lead" where
  "utf8_lead n =
     (if n < 128 then Emit n
      else if 194 \<le> n \<and> n \<le> 223 then Begin (n mod 32) 1 128 191
      else if 224 \<le> n \<and> n \<le> 239
        then Begin (n mod 16) 2 (if n = 224 then 160 else 128) (if n = 237 then 159 else 191)
      else if 240 \<le> n \<and> n \<le> 244
        then Begin (n mod 8) 3 (if n = 240 then 144 else 128) (if n = 244 then 143 else 191)
      else Bad)"

fun utf8_decode_from :: "nat \<Rightarrow> nat \<Rightarrow> nat \<Rightarrow> nat \<Rightarrow> Buffer \<Rightarrow> nat list" where
  "utf8_decode_from c k lo hi [] = (if k = 0 then [] else [65533])"
| "utf8_decode_from c k lo hi (b # bs) =
     (let n = unat b in
      if k = 0 \<or> n < lo \<or> hi < n
      then (if k = 0 then [] else [65533]) @
           (case utf8_lead n of
              Emit c' \<Rightarrow> c' # utf8_decode_from 0 0 128 191 bs
            | Begin c' k' lo' hi' \<Rightarrow> utf8_decode_from c' k' lo' hi' bs
            | Bad \<Rightarrow> 65533 # utf8_decode_from 0 0 128 191 bs)
      else if k = 1 then (c * 64 + n mod 64) # utf8_decode_from 0 0 128 191 bs
      else utf8_decode_from (c * 64 + n mod 64) (k - 1) 128 191 bs)"

definition units_of_code_point :: "nat \<Rightarrow> jsstring" where
  "units_of_code_point c =
     (if c < 65536 then [of_nat c]
      else [of_nat (55296 + (c - 65536) div 1024), of_nat (56320 + (c - 65536) mod 1024)])"

definition node_utf8_decode :: "Buffer \<Rightarrow> jsstring" where
  "node_utf8_decode b = concat (map units_of_code_point (utf8_decode_from 0 0 128 191 b))"

text \<open>A string in which every surrogate is half of a pair.\<close>

fun well_formed :: "jsstring \<Rightarrow> bool" where
  "well_formed [] = True"
| "well_formed [u] = (\<not> is_high (unat u) \<and> \<not> is_low (unat u))"
| "well_formed (u # l # rest) =
     (if is_high (unat u) then is_low (unat l) \<and> well_formed rest
      else \<not> is_low (unat u) \<and> well_formed (l # rest))"

section \<open>EncryptionService\<close>

text \<open>
  Node's \<open>crypto\<close> module is outside the repository; its primitives are parameters.
  \<open>EVP_BytesToKey\<close> is the derivation that \<open>crypto.createCipher(algorithm, password)\<close> and
  \<open>crypto.createDecipher(algorithm, password)\<close> apply to the password to obtain the key
  and the IV of the cipher (no IV is passed to them). \<open>aead_seal alg key iv aad plaintext\<close>
  is the ciphertext and tag of the authenticated cipher, \<open>aead_open alg key iv aad
  ciphertext tag\<close> the plaintext, or \<open>None\<close> where \<open>final()\<close> throws. \<open>utf8_encode\<close> and
  \<open>utf8_decode\<close> are the \<open>'utf8'\<close> input and output encodings.
\<close>

record crypto =
  EVP_BytesToKey :: "jsstring \<Rightarrow> Buffer \<Rightarrow> Buffer \<times> Buffer"
  aead_seal :: "jsstring \<Rightarrow> Buffer \<Rightarrow> Buffer \<Rightarrow> Buffer \<Rightarrow> Buffer \<Rightarrow> Buffer \<times> Buffer"
  aead_open :: "jsstring \<Rightarrow> Buffer \<Rightarrow> Buffer \<Rightarrow> Buffer \<Rightarrow> Buffer \<Rightarrow> Buffer \<Rightarrow> Buffer option"
  pbkdf2 :: "jsstring \<Rightarrow> Buffer \<Rightarrow> nat \<Rightarrow> nat \<Rightarrow> jsstring \<Rightarrow> Buffer"
  utf8_encode :: "jsstring \<Rightarrow> Buffer"
  utf8_decode :: "Buffer \<Rightarrow> jsstring"

record EncryptedData =
  encrypted :: jsstring
  iv :: jsstring
  authTag :: jsstring
  salt :: jsstring

record MasterKey =
  key :: Buffer
  mk_salt :: jsstring

definition ALGORITHM :: jsstring where
  "ALGORITHM = js ''aes-256-gcm''"

definition KEY_LENGTH :: nat where
  "KEY_LENGTH = 32"

definition IV_LENGTH :: nat where
  "IV_LENGTH = 16"

definition AUTH_TAG_LENGTH :: nat where
  "AUTH_TAG_LENGTH = 16"

definition PBKDF2_ITERATIONS :: nat where
  "PBKDF2_ITERATIONS = 100000"

text \<open>The state of a \<open>Cipher\<close> or \<open>Decipher\<close> object: its key, its IV and the AAD set on it.\<close>

record Cipher =
  c_key :: Buffer
  c_iv :: Buffer
  c_aad :: Buffer

definition createCipher :: "crypto \<Rightarrow> jsstring \<Rightarrow> Buffer \<Rightarrow> Cipher" where
  "createCipher lib algorithm password =
     (let (k, v) = EVP_BytesToKey lib algorithm password
      in \<lparr>c_key = k, c_iv = v, c_aad = []\<rparr>)"

definition createDecipher :: "crypto \<Rightarrow> jsstring \<Rightarrow> Buffer \<Rightarrow> Cipher" where
  "createDecipher lib algorithm password =
     (let (k, v) = EVP_BytesToKey lib algorithm password
      in \<lparr>c_key = k, c_iv = v, c_aad = []\<rparr>)"

definition setAAD :: "Cipher \<Rightarrow> Buffer \<Rightarrow> Cipher" where
  "setAAD c a = c\<lparr>c_aad := a\<rparr>"

text \<open>
  \<open>deriveMasterKey(password, salt?)\<close>: \<open>salt ? Buffer.from(salt, 'hex') : await
  randomBytes(32)\<close>, so an empty salt string draws a random salt as an omitted one does.
\<close>

definition deriveMasterKey ::
  "crypto \<Rightarrow> jsstring \<Rightarrow> jsstring option \<Rightarrow> rng \<Rightarrow> MasterKey \<times> rng" where
  "deriveMasterKey lib password salt_opt g =
     (let (saltBuffer, g') =
            (case salt_opt of
               None \<Rightarrow> randomBytes 32 g
             | Some s \<Rightarrow> if s = [] then randomBytes 32 g else (fromHex s, g));
          k = pbkdf2 lib password saltBuffer PBKDF2_ITERATIONS KEY_LENGTH (js ''sha512'')
      in (\<lparr>key = k, mk_salt = toHex saltBuffer\<rparr>, g'))"

text \<open>
  \<open>encrypt(data, masterKey)\<close>. The 16 random bytes \<open>iv\<close> are drawn and returned in the
  envelope; the cipher object is made by \<open>createCipher(ALGORITHM, masterKey)\<close>, which
  receives the key only. \<open>update\<close> followed by \<open>final\<close> yields the hex of the whole
  ciphertext.
\<close>

definition encrypt :: "crypto \<Rightarrow> jsstring \<Rightarrow> Buffer \<Rightarrow> rng \<Rightarrow> EncryptedData \<times> rng" where
  "encrypt lib data masterKey g =
     (let (iv_bytes, g') = randomBytes IV_LENGTH g;
          cipher = createCipher lib ALGORITHM masterKey;
          cipher = setAAD cipher (utf8_encode lib (js ''yikes-password-manager''));
          (ct, tag) = aead_seal lib ALGORITHM (c_key cipher) (c_iv cipher) (c_aad cipher)
                        (utf8_encode lib data)
      in (\<lparr>encrypted = toHex ct, iv = toHex iv_bytes, authTag = toHex tag, salt = []\<rparr>, g'))"

text \<open>
  \<open>decrypt(encryptedData, masterKey)\<close>. The IV of the envelope is decoded into a local
  that nothing reads; \<open>final()\<close> throws when the tag does not verify, and the promise is
  rejected.
\<close>

datatype crypto_error = AuthError

definition decrypt :: "crypto \<Rightarrow> EncryptedData \<Rightarrow> Buffer \<Rightarrow> crypto_error + jsstring" where
  "decrypt lib encryptedData masterKey =
     (let iv_bytes = fromHex (iv encryptedData);
          tag = fromHex (authTag encryptedData);
          decipher = createDecipher lib ALGORITHM masterKey;
          decipher = setAAD decipher (utf8_encode lib (js ''yikes-password-manager''))
      in case aead_open lib ALGORITHM (c_key decipher) (c_iv decipher) (c_aad decipher)
                (fromHex (encrypted encryptedData)) tag of
           None \<Rightarrow> Inl AuthError
         | Some pt \<Rightarrow> Inr (utf8_decode lib pt))"

definition generateSalt :: "rng \<Rightarrow> jsstring \<times> rng" where
  "generateSalt g = (let (s, g') = randomBytes 32 g in (toHex s, g'))"

text \<open>
  A stand-in for the primitives, used to run the definitions on concrete inputs: the key
  derivation of \<open>createCipher\<close> keeps the password and its first 12 bytes, sealing leaves
  the plaintext as it is and tags it with key, IV and AAD, and the text encoding keeps
  the low byte of each code unit.
\<close>

definition toy_crypto :: crypto where
  "toy_crypto =
     \<lparr>EVP_BytesToKey = (\<lambda>alg pw. (pw, take 12 pw)),
      aead_seal = (\<lambda>alg k v a p. (p, k @ v @ a)),
      aead_open = (\<lambda>alg k v a c t. if t = k @ v @ a then Some c else None),
      pbkdf2 = (\<lambda>pw s n len d. take len (s @ map ucast pw @ replicate len 0)),
      utf8_encode = map ucast,
      utf8_decode = map ucast\<rparr>"

text \<open>The same stand-in with Node's own text codec.\<close>

definition node_codec_crypto :: crypto where
  "node_codec_crypto =
     toy_crypto\<lparr>utf8_encode := node_utf8_encode, utf8_decode := node_utf8_decode\<rparr>"

section \<open>The store\<close>

text \<open>
  The tables of the migration script that the controllers and the middleware read and
  write, each a list of rows in insertion order. UUIDs are abstracted to numbers; the
  store hands out \<open>next_id\<close> for a column with \<open>DEFAULT gen_random_uuid()\<close>. Times are
  milliseconds since the epoch. A request is served at one reading \<open>now\<close> of the clock
  (\<open>new Date()\<close>, \<open>Date.now()\<close> and SQL \<open>NOW()\<close>).

  A row of \<open>users\<close> is the object that \<open>db.query\<close> returns for it: its properties are the
  columns of the migration (\<open>id\<close>, \<open>email\<close>, \<open>password_hash\<close>, \<open>master_key_salt\<close>,
  \<open>two_factor_secret\<close>, \<open>two_factor_enabled\<close>, \<open>created_at\<close>, \<open>updated_at\<close>,
  \<open>last_login_at\<close>); nothing between the connection and the controllers renames them.
\<close>

type_synonym uuid = nat
type_synonym time = nat

record User =
  user_id :: uuid
  user_email :: jsstring
  password_hash :: jsstring
  master_key_salt :: jsstring
  two_factor_secret :: "jsstring option"
  two_factor_enabled :: bool
  user_created_at :: time
  user_updated_at :: time
  last_login_at :: "time option"

text \<open>
  The value of a property read \<open>user.name\<close> on such a row. The controllers read rows
  through the interface \<open>User\<close> (\<open>rows[0] as User\<close>), whose properties are \<open>id\<close>, \<open>email\<close>,
  \<open>passwordHash\<close>, \<open>masterKeySalt\<close>, \<open>twoFactorSecret\<close>, \<open>twoFactorEnabled\<close>, ...; a
  property the row does not have reads as \<open>undefined\<close>.
\<close>

datatype jsval =
  JUndefined | JNull | JString jsstring | JBool bool | JUuid uuid | JDate time

definition user_prop :: "User \<Rightarrow> string \<Rightarrow> jsval" where
  "user_prop u name =
     (if name = ''id'' then JUuid (user_id u)
      else if name = ''email'' then JString (user_email u)
      else if name = ''password_hash'' then JString (password_hash u)
      else if name = ''master_key_salt'' then JString (master_key_salt u)
      else if name = ''two_factor_secret''
        then (case two_factor_secret u of None \<Rightarrow> JNull | Some x \<Rightarrow> JString x)
      else if name = ''two_factor_enabled'' then JBool (two_factor_enabled u)
      else if name = ''created_at'' then JDate (user_created_at u)
      else if name = ''updated_at'' then JDate (user_updated_at u)
      else if name = ''last_login_at''
        then (case last_login_at u of None \<Rightarrow> JNull | Some t \<Rightarrow> JDate t)
      else JUndefined)"

text \<open>The truthiness of a value, as \<open>if (v)\<close> tests it.\<close>

fun truthy :: "jsval \<Rightarrow> bool" where
  "truthy JUndefined = False"
| "truthy JNull = False"
| "truthy (JString x) = (x \<noteq> [])"
| "truthy (JBool b) = b"
| "truthy (JUuid _) = True"
| "truthy (JDate _) = True"

record Session =
  session_id :: uuid
  session_userId :: uuid
  token :: jsstring
  expiresAt :: time
  session_createdAt :: time
  userAgent :: "jsstring option"
  ipAddress :: "jsstring option"

record SecurityAudit =
  audit_id :: uuid
  audit_userId :: uuid
  action :: string
  details :: jsstring
  audit_ipAddress :: "jsstring option"
  audit_userAgent :: "jsstring option"
  audit_createdAt :: time

record Credential =
  cred_id :: uuid
  cred_userId :: uuid
  title :: jsstring
  username :: jsstring
  password :: jsstring
  url :: "jsstring option"
  cred_notes :: "jsstring option"
  folderId :: "uuid option"
  tags :: "jsstring list"
  favorite :: bool
  cred_createdAt :: time
  cred_updatedAt :: time
  lastUsedAt :: "time option"

record Folder =
  folder_id :: uuid
  folder_userId :: uuid
  folder_name :: jsstring

record PasswordHistory =
  ph_id :: uuid
  credentialId :: uuid
  ph_password :: jsstring
  changedAt :: time

datatype table =
  users_table | sessions_table | security_audit_table | credentials_table | folders_table
  | password_history_table

text \<open>
  \<open>offline\<close> lists the tables on which a query currently fails: \<open>db.query\<close> then
  rejects, and the handler's \<open>catch\<close> runs.
\<close>

record Database =
  users :: "User list"
  sessions :: "Session list"
  security_audit :: "SecurityAudit list"
  credentials :: "Credential list"
  folders :: "Folder list"
  password_history :: "PasswordHistory list"
  next_id :: nat
  offline :: "table list"

datatype jwt_error = JsonWebTokenError | TokenExpiredError | NotBeforeError

text \<open>
  What a handler's \<open>try\<close> block can catch: a rejected query, an error of
  \<open>jsonwebtoken\<close>, the \<open>TypeError\<close> of reading a property of \<open>undefined\<close>, and the error
  with which \<open>bcryptjs\<close> rejects arguments that are not strings.
\<close>

datatype exn = DbError | JwtError jwt_error | TypeError | IllegalArguments

text \<open>\<open>SELECT * FROM users WHERE email = $1\<close> and \<open>... WHERE id = $1\<close>.\<close>

definition select_users_by_email :: "Database \<Rightarrow> jsstring \<Rightarrow> exn + User list" where
  "select_users_by_email db e =
     (if users_table \<in> set (offline db) then Inl DbError
      else Inr (filter (\<lambda>u. user_email u = e) (users db)))"

definition select_users_by_id :: "Database \<Rightarrow> uuid \<Rightarrow> exn + User list" where
  "select_users_by_id db i =
     (if users_table \<in> set (offline db) then Inl DbError
      else Inr (filter (\<lambda>u. user_id u = i) (users db)))"

text \<open>
  \<open>INSERT INTO users (email, password_hash, master_key_salt) ... RETURNING *\<close>, under
  \<open>email VARCHAR(255) UNIQUE NOT NULL\<close>; the other columns take their defaults.
\<close>

definition insert_user ::
  "Database \<Rightarrow> jsstring \<Rightarrow> jsstring \<Rightarrow> jsstring \<Rightarrow> time \<Rightarrow> exn + (User \<times> Database)" where
  "insert_user db e h s now =
     (if users_table \<in> set (offline db) then Inl DbError
      else if 255 < length e \<or> list_ex (\<lambda>u. user_email u = e) (users db) then Inl DbError
      else
        (let u = \<lparr>user_id = next_id db, user_email = e, password_hash = h, master_key_salt = s,
                   two_factor_secret = None, two_factor_enabled = False, user_created_at = now,
                   user_updated_at = now, last_login_at = None\<rparr>
         in Inr (u, db\<lparr>users := users db @ [u], next_id := Suc (next_id db)\<rparr>)))"

text \<open>\<open>UPDATE users SET last_login_at = NOW() WHERE id = $1\<close>.\<close>

definition update_last_login :: "Database \<Rightarrow> uuid \<Rightarrow> time \<Rightarrow> exn + Database" where
  "update_last_login db i now =
     (if users_table \<in> set (offline db) then Inl DbError
      else Inr (db\<lparr>users :=
             map (\<lambda>u. if user_id u = i then u\<lparr>last_login_at := Some now\<rparr> else u) (users db)\<rparr>))"

text \<open>\<open>SELECT * FROM sessions WHERE token = $1 AND expires_at > NOW()\<close>.\<close>

definition select_sessions :: "Database \<Rightarrow> jsstring \<Rightarrow> time \<Rightarrow> exn + Session list" where
  "select_sessions db t now =
     (if sessions_table \<in> set (offline db) then Inl DbError
      else Inr (filter (\<lambda>s. token s = t \<and> now < expiresAt s) (sessions db)))"

text \<open>
  \<open>INSERT INTO sessions (id, user_id, token, expires_at, user_agent, ip_address)\<close>, under
  \<open>id UUID PRIMARY KEY\<close> and \<open>token VARCHAR(255) UNIQUE NOT NULL\<close>.
\<close>

definition insert_session ::
  "Database \<Rightarrow> uuid \<Rightarrow> uuid \<Rightarrow> jsstring \<Rightarrow> time \<Rightarrow> jsstring option \<Rightarrow> jsstring option \<Rightarrow> time
     \<Rightarrow> exn + Database" where
  "insert_session db sid uid t e ua ipa now =
     (if sessions_table \<in> set (offline db) then Inl DbError
      else if 255 < length t \<or> list_ex (\<lambda>s. session_id s = sid \<or> token s = t) (sessions db)
        then Inl DbError
      else Inr (db\<lparr>sessions := sessions db @
             [\<lparr>session_id = sid, session_userId = uid, token = t, expiresAt = e,
               session_createdAt = now, userAgent = ua, ipAddress = ipa\<rparr>]\<rparr>))"

text \<open>
  \<open>UPDATE sessions SET token = $1, expires_at = $2 WHERE token = $3\<close>: one statement; it
  fails, changing nothing, when a row it does not touch already holds the new token
  or the new token is too long.
\<close>

definition update_session_token ::
  "Database \<Rightarrow> jsstring \<Rightarrow> time \<Rightarrow> jsstring \<Rightarrow> exn + Database" where
  "update_session_token db new_token e old_token =
     (if sessions_table \<in> set (offline db) then Inl DbError
      else if list_ex (\<lambda>s. token s = old_token) (sessions db) \<and>
              (255 < length new_token \<or>
               list_ex (\<lambda>s. token s = new_token \<and> token s \<noteq> old_token) (sessions db))
        then Inl DbError
      else Inr (db\<lparr>sessions :=
             map (\<lambda>s. if token s = old_token then s\<lparr>token := new_token, expiresAt := e\<rparr> else s)
               (sessions db)\<rparr>))"

text \<open>\<open>INSERT INTO security_audit (user_id, action, details, ip_address, user_agent)\<close>.\<close>

definition insert_audit ::
  "Database \<Rightarrow> uuid \<Rightarrow> string \<Rightarrow> jsstring \<Rightarrow> jsstring option \<Rightarrow> jsstring option \<Rightarrow> time
     \<Rightarrow> exn + Database" where
  "insert_audit db uid a d ipa ua now =
     (if security_audit_table \<in> set (offline db) then Inl DbError
      else Inr (db\<lparr>security_audit := security_audit db @
             [\<lparr>audit_id = next_id db, audit_userId = uid, action = a, details = d,
               audit_ipAddress = ipa, audit_userAgent = ua, audit_createdAt = now\<rparr>],
             next_id := Suc (next_id db)\<rparr>))"

text \<open>\<open>SELECT id FROM folders WHERE id = $1 AND user_id = $2\<close>.\<close>

definition select_folders :: "Database \<Rightarrow> uuid \<Rightarrow> uuid \<Rightarrow> exn + Folder list" where
  "select_folders db i uid =
     (if folders_table \<in> set (offline db) then Inl DbError
      else Inr (filter (\<lambda>f. folder_id f = i \<and> folder_userId f = uid) (folders db)))"

text \<open>\<open>SELECT * FROM credentials WHERE id = $1 AND user_id = $2\<close>.\<close>

definition select_credentials :: "Database \<Rightarrow> uuid \<Rightarrow> uuid \<Rightarrow> exn + Credential list" where
  "select_credentials db i uid =
     (if credentials_table \<in> set (offline db) then Inl DbError
      else Inr (filter (\<lambda>c. cred_id c = i \<and> cred_userId c = uid) (credentials db)))"

text \<open>
  \<open>INSERT INTO credentials (...) VALUES (...) RETURNING *\<close>, under \<open>title VARCHAR(255)\<close>
  and \<open>username VARCHAR(255)\<close>.
\<close>

definition insert_credential ::
  "Database \<Rightarrow> uuid \<Rightarrow> jsstring \<Rightarrow> jsstring \<Rightarrow> jsstring \<Rightarrow> jsstring option \<Rightarrow> jsstring option
     \<Rightarrow> uuid option \<Rightarrow> jsstring list \<Rightarrow> bool \<Rightarrow> time \<Rightarrow> exn + (Credential \<times> Database)" where
  "insert_credential db uid t un pw u n f tg fav now =
     (if credentials_table \<in> set (offline db) then Inl DbError
      else if 255 < length t \<or> 255 < length un then Inl DbError
      else
        (let c = \<lparr>cred_id = next_id db, cred_userId = uid, title = t, username = un,
                   password = pw, url = u, cred_notes = n, folderId = f, tags = tg, favorite = fav,
                   cred_createdAt = now, cred_updatedAt = now, lastUsedAt = None\<rparr>
         in Inr (c, db\<lparr>credentials := credentials db @ [c], next_id := Suc (next_id db)\<rparr>)))"

section \<open>Libraries and configuration\<close>

text \<open>
  What the handlers take from outside the repository: \<open>process.env.JWT_SECRET\<close>, the
  \<open>jsonwebtoken\<close> functions (\<open>jwt_sign claims secret expiresIn now\<close>, and \<open>jwt_verify token
  secret now\<close>, which throws one of the library's errors or returns the payload),
  \<open>bcryptjs\<close>, \<open>String.prototype.toLowerCase\<close>, \<open>otplib\<close>'s \<open>authenticator.verify\<close> on a
  token, the secret it is handed and the clock (\<open>None\<close> where it throws), and the
  calendar of the server's time zone: \<open>addDays t n\<close> is the time of a \<open>Date\<close> set to \<open>t\<close>
  after \<open>setDate(getDate() + n)\<close>.
\<close>

record JWTPayload =
  userId :: uuid
  email :: jsstring
  iat :: nat
  exp :: nat

record env =
  JWT_SECRET :: "jsstring option"
  jwt_sign :: "uuid \<times> jsstring \<Rightarrow> jsstring \<Rightarrow> string \<Rightarrow> time \<Rightarrow> jsstring"
  jwt_verify :: "jsstring \<Rightarrow> jsstring \<Rightarrow> time \<Rightarrow> jwt_error + JWTPayload"
  bcrypt_hash :: "jsstring \<Rightarrow> nat \<Rightarrow> rng \<Rightarrow> jsstring"
  bcrypt_compare :: "jsstring \<Rightarrow> jsstring \<Rightarrow> bool"
  toLowerCase :: "jsstring \<Rightarrow> jsstring"
  authenticator_verify :: "jsstring \<Rightarrow> jsval \<Rightarrow> time \<Rightarrow> bool option"
  addDays :: "time \<Rightarrow> nat \<Rightarrow> time"

text \<open>
  \<open>EncryptionService.hashPassword\<close> and \<open>verifyPassword\<close>. \<open>bcrypt.compare(password,
  hash)\<close> rejects when the hash it is handed is not a string.
\<close>

definition hashPassword :: "env \<Rightarrow> jsstring \<Rightarrow> rng \<Rightarrow> jsstring" where
  "hashPassword e pw g = bcrypt_hash e pw 12 g"

definition verifyPassword :: "env \<Rightarrow> jsstring \<Rightarrow> jsval \<Rightarrow> exn + bool" where
  "verifyPassword e pw h =
     (case h of
        JString x \<Rightarrow> Inr (bcrypt_compare e pw x)
      | _ \<Rightarrow> Inl IllegalArguments)"

text \<open>
  In \<open>jsonwebtoken\<close>, \<open>TokenExpiredError\<close> and \<open>NotBeforeError\<close> are subclasses of
  \<open>JsonWebTokenError\<close>.
\<close>

fun instanceof_JsonWebTokenError :: "exn \<Rightarrow> bool" where
  "instanceof_JsonWebTokenError (JwtError _) = True"
| "instanceof_JsonWebTokenError _ = False"

fun instanceof_TokenExpiredError :: "exn \<Rightarrow> bool" where
  "instanceof_TokenExpiredError (JwtError TokenExpiredError) = True"
| "instanceof_TokenExpiredError _ = False"

section \<open>Requests and responses\<close>

datatype Data =
  RegisterData uuid jsstring jsval
  | LoginData jsstring uuid jsstring jsval jsval
  | TokenData jsstring
  | CredentialData Credential

text \<open>The HTTP status with the JSON payload \<open>{success, data?, message?, error?}\<close>.\<close>

record Response =
  status :: nat
  success :: bool
  data :: "Data option"
  message :: "string option"
  error :: "string option"

definition failure :: "nat \<Rightarrow> string \<Rightarrow> Response" where
  "failure st msg = \<lparr>status = st, success = False, data = None, message = None, error = Some msg\<rparr>"

definition ok :: "nat \<Rightarrow> string option \<Rightarrow> Data option \<Rightarrow> Response" where
  "ok st msg d = \<lparr>status = st, success = True, data = d, message = msg, error = None\<rparr>"

record RegisterRequest =
  reg_email :: "jsstring option"
  reg_password :: "jsstring option"
  confirmPassword :: "jsstring option"

record LoginRequest =
  login_email :: "jsstring option"
  login_password :: "jsstring option"
  twoFactorCode :: "jsstring option"
  rememberMe :: bool

record CreateCredentialRequest =
  new_title :: "jsstring option"
  new_username :: "jsstring option"
  new_password :: "jsstring option"
  new_url :: "jsstring option"
  new_notes :: "jsstring option"
  new_folderId :: "uuid option"
  new_tags :: "jsstring list option"
  new_favorite :: "bool option"

record UpdateCredentialRequest =
  upd_title :: "jsstring option"
  upd_username :: "jsstring option"
  upd_password :: "jsstring option"
  upd_url :: "jsstring option"
  upd_notes :: "jsstring option"
  upd_folderId :: "uuid option"
  upd_tags :: "jsstring list option"
  upd_favorite :: "bool option"

text \<open>
  The parts of an Express request the handlers read: the \<open>Authorization\<close> header,
  \<open>req.ip\<close>, \<open>req.get('User-Agent')\<close>, \<open>req.user\<close> (set by the middleware),
  \<open>req.params.id\<close> and the parsed body.
\<close>

record 'b Request =
  authorization :: "jsstring option"
  ip :: "jsstring option"
  user_agent :: "jsstring option"
  user :: "User option"
  params_id :: uuid
  body :: 'b

datatype 'b middleware_result = Respond Response | Next "'b Request"

section \<open>AuthMiddleware.authenticate\<close>

text \<open>The \<open>catch\<close> block of \<open>authenticate\<close>: the \<open>instanceof\<close> tests in the source's order.\<close>

definition authenticate_catch :: "exn \<Rightarrow> 'b middleware_result" where
  "authenticate_catch x =
     (if instanceof_JsonWebTokenError x then Respond (failure 401 ''Invalid token'')
      else if instanceof_TokenExpiredError x then Respond (failure 401 ''Token expired'')
      else Respond (failure 500 ''Authentication failed''))"

definition authenticate :: "env \<Rightarrow> Database \<Rightarrow> time \<Rightarrow> 'b Request \<Rightarrow> 'b middleware_result" where
  "authenticate e db now req =
     (case authorization req of
        None \<Rightarrow> Respond (failure 401 ''Access token required'')
      | Some authHeader \<Rightarrow>
          if authHeader = [] \<or> \<not> startsWith authHeader (js ''Bearer '')
          then Respond (failure 401 ''Access token required'')
          else
            (let tok = substring authHeader 7 in
             case JWT_SECRET e of
               None \<Rightarrow> Respond (failure 500 ''Server configuration error'')
             | Some secret \<Rightarrow>
                 if secret = [] then Respond (failure 500 ''Server configuration error'')
                 else
                   (case jwt_verify e tok secret now of
                      Inl err \<Rightarrow> authenticate_catch (JwtError err)
                    | Inr decoded \<Rightarrow>
                        (case select_sessions db tok now of
                           Inl x \<Rightarrow> authenticate_catch x
                         | Inr sessionRows \<Rightarrow>
                             if sessionRows = []
                             then Respond (failure 401 ''Invalid or expired session'')
                             else
                               (case select_users_by_id db (userId decoded) of
                                  Inl x \<Rightarrow> authenticate_catch x
                                | Inr userRows \<Rightarrow>
                                    (case userRows of
                                       [] \<Rightarrow> Respond (failure 401 ''User not found'')
                                     | u # _ \<Rightarrow> Next (req\<lparr>user := Some u\<rparr>)))))))"

section \<open>AuthController\<close>

text \<open>
  The handlers are static methods that reach the store through \<open>this.db\<close>. \<open>this\<close> is
  the class when a handler is invoked as a method (\<open>AuthController.login(req, res)\<close>) and
  \<open>undefined\<close> when the function itself is handed to the router and called by it, as
  \<open>apiRouter.post('/auth/login', AuthController.login)\<close> does. Reading \<open>db\<close> of
  \<open>undefined\<close> throws before the query is sent.
\<close>

datatype this_value = This_undefined | This_class

definition this_db :: "this_value \<Rightarrow> exn + 'a \<Rightarrow> exn + 'a" where
  "this_db this q = (case this of This_undefined \<Rightarrow> Inl TypeError | This_class \<Rightarrow> q)"

text \<open>
  Every handler returns its response and the store it leaves. A statement that throws
  ends the \<open>try\<close> block: the \<open>catch\<close> answers 500 and the store keeps what the earlier
  statements wrote (no handler opens a transaction).
\<close>

definition register ::
  "this_value \<Rightarrow> env \<Rightarrow> Database \<Rightarrow> time \<Rightarrow> rng \<Rightarrow> RegisterRequest Request
     \<Rightarrow> Response \<times> Database" where
  "register this e db now g req =
     (case reg_email (body req) of
        None \<Rightarrow> (failure 400 ''All fields are required'', db)
      | Some em \<Rightarrow>
     (case reg_password (body req) of
        None \<Rightarrow> (failure 400 ''All fields are required'', db)
      | Some pw \<Rightarrow>
     (case confirmPassword (body req) of
        None \<Rightarrow> (failure 400 ''All fields are required'', db)
      | Some cpw \<Rightarrow>
          if em = [] \<or> pw = [] \<or> cpw = [] then (failure 400 ''All fields are required'', db)
          else if pw \<noteq> cpw then (failure 400 ''Passwords do not match'', db)
          else if length pw < 12
            then (failure 400 ''Password must be at least 12 characters long'', db)
          else
            (case this_db this (select_users_by_email db (toLowerCase e em)) of
               Inl _ \<Rightarrow> (failure 500 ''Registration failed'', db)
             | Inr existingUser \<Rightarrow>
                 if existingUser \<noteq> []
                 then (failure 409 ''User with this email already exists'', db)
                 else
                   (let passwordHash = hashPassword e pw g;
                        masterKeySalt = fst (generateSalt g)
                    in case this_db this
                              (insert_user db (toLowerCase e em) passwordHash masterKeySalt now) of
                         Inl _ \<Rightarrow> (failure 500 ''Registration failed'', db)
                       | Inr (u, db1) \<Rightarrow>
                           (case this_db this
                                   (insert_audit db1 (user_id u) ''USER_REGISTERED''
                                      (js ''New user account created'') (ip req) (user_agent req)
                                      now) of
                              Inl _ \<Rightarrow> (failure 500 ''Registration failed'', db1)
                            | Inr db2 \<Rightarrow>
                                (ok 201 (Some ''User registered successfully'')
                                   (Some (RegisterData (user_id u) (user_email u)
                                            (user_prop u ''masterKeySalt''))),
                                 db2)))))))"

text \<open>
  The last part of \<open>login\<close>, from \<open>// Generate JWT token\<close> on: the token is signed, the
  session row inserted (\<open>uuid\<close> is the value of \<open>uuidv4()\<close>), the last login written, the
  success audited and the response sent.
\<close>

definition login_issue ::
  "this_value \<Rightarrow> env \<Rightarrow> Database \<Rightarrow> time \<Rightarrow> uuid \<Rightarrow> LoginRequest Request \<Rightarrow> User
     \<Rightarrow> Response \<times> Database" where
  "login_issue this e db now uuid req u =
     (case JWT_SECRET e of
        None \<Rightarrow> (failure 500 ''Server configuration error'', db)
      | Some secret \<Rightarrow>
          if secret = [] then (failure 500 ''Server configuration error'', db)
          else
            (let expiresIn = (if rememberMe (body req) then ''7d'' else ''24h'');
                 tok = jwt_sign e (user_id u, user_email u) secret expiresIn now;
                 sessionId = uuid;
                 expires = addDays e now (if rememberMe (body req) then 7 else 1)
             in case this_db this
                       (insert_session db sessionId (user_id u) tok expires (user_agent req)
                          (ip req) now) of
                  Inl _ \<Rightarrow> (failure 500 ''Login failed'', db)
                | Inr db1 \<Rightarrow>
                    (case this_db this (update_last_login db1 (user_id u) now) of
                       Inl _ \<Rightarrow> (failure 500 ''Login failed'', db1)
                     | Inr db2 \<Rightarrow>
                         (case this_db this
                                 (insert_audit db2 (user_id u) ''LOGIN_SUCCESS''
                                    (js ''User logged in successfully'') (ip req) (user_agent req)
                                    now) of
                            Inl _ \<Rightarrow> (failure 500 ''Login failed'', db2)
                          | Inr db3 \<Rightarrow>
                              (ok 200 (Some ''Login successful'')
                                 (Some (LoginData tok (user_id u) (user_email u)
                                          (user_prop u ''twoFactorEnabled'')
                                          (user_prop u ''masterKeySalt''))),
                               db3)))))"

definition login ::
  "this_value \<Rightarrow> env \<Rightarrow> Database \<Rightarrow> time \<Rightarrow> uuid \<Rightarrow> LoginRequest Request
     \<Rightarrow> Response \<times> Database" where
  "login this e db now uuid req =
     (case login_email (body req) of
        None \<Rightarrow> (failure 400 ''Email and password are required'', db)
      | Some em \<Rightarrow>
     (case login_password (body req) of
        None \<Rightarrow> (failure 400 ''Email and password are required'', db)
      | Some pw \<Rightarrow>
          if em = [] \<or> pw = [] then (failure 400 ''Email and password are required'', db)
          else
            (case this_db this (select_users_by_email db (toLowerCase e em)) of
               Inl _ \<Rightarrow> (failure 500 ''Login failed'', db)
             | Inr [] \<Rightarrow> (failure 401 ''Invalid credentials'', db)
             | Inr (u # _) \<Rightarrow>
                 (case verifyPassword e pw (user_prop u ''passwordHash'') of
                    Inl _ \<Rightarrow> (failure 500 ''Login failed'', db)
                  | Inr isValidPassword \<Rightarrow>
                 if \<not> isValidPassword
                 then
                   (case this_db this
                           (insert_audit db (user_id u) ''LOGIN_FAILED'' (js ''Invalid password'')
                              (ip req) (user_agent req) now) of
                      Inl _ \<Rightarrow> (failure 500 ''Login failed'', db)
                    | Inr db1 \<Rightarrow> (failure 401 ''Invalid credentials'', db1))
                 else if truthy (user_prop u ''twoFactorEnabled'')
                 then
                   (case twoFactorCode (body req) of
                      None \<Rightarrow> (failure 400 ''Two-factor authentication code required'', db)
                    | Some code \<Rightarrow>
                        if code = []
                        then (failure 400 ''Two-factor authentication code required'', db)
                        else
                          (case authenticator_verify e code (user_prop u ''twoFactorSecret'')
                                  now of
                             None \<Rightarrow> (failure 500 ''Login failed'', db)
                           | Some isValidTOTP \<Rightarrow>
                               if \<not> isValidTOTP
                               then
                                 (case this_db this
                                         (insert_audit db (user_id u) ''LOGIN_FAILED''
                                            (js ''Invalid 2FA code'') (ip req) (user_agent req)
                                            now) of
                                    Inl _ \<Rightarrow> (failure 500 ''Login failed'', db)
                                  | Inr db1 \<Rightarrow>
                                      (failure 401 ''Invalid two-factor authentication code'',
                                       db1))
                               else login_issue this e db now uuid req u))
                 else login_issue this e db now uuid req u))))"

text \<open>
  \<open>refreshToken\<close>: the new token is signed for 24 hours; when the request carries a
  bearer header, the session row of the old token takes the new token and an expiry one
  day ahead.
\<close>

definition refreshToken ::
  "this_value \<Rightarrow> env \<Rightarrow> Database \<Rightarrow> time \<Rightarrow> 'b Request \<Rightarrow> Response \<times> Database" where
  "refreshToken this e db now req =
     (case user req of
        None \<Rightarrow> (failure 401 ''Not authenticated'', db)
      | Some u \<Rightarrow>
          (case JWT_SECRET e of
             None \<Rightarrow> (failure 500 ''Server configuration error'', db)
           | Some secret \<Rightarrow>
               if secret = [] then (failure 500 ''Server configuration error'', db)
               else
                 (let tok = jwt_sign e (user_id u, user_email u) secret ''24h'' now in
                  case authorization req of
                    None \<Rightarrow> (ok 200 None (Some (TokenData tok)), db)
                  | Some authHeader \<Rightarrow>
                      if authHeader \<noteq> [] \<and> startsWith authHeader (js ''Bearer '')
                      then
                        (let oldToken = substring authHeader 7;
                             expires = addDays e now 1
                         in case this_db this (update_session_token db tok expires oldToken) of
                              Inl _ \<Rightarrow> (failure 500 ''Failed to refresh token'', db)
                            | Inr db1 \<Rightarrow> (ok 200 None (Some (TokenData tok)), db1))
                      else (ok 200 None (Some (TokenData tok)), db))))"

section \<open>CredentialsController\<close>

text \<open>
  The \<open>if (folderId)\<close> block of \<open>create\<close> and \<open>update\<close>: whether the named folder, if
  any, is among the user's folders.
\<close>

definition folder_valid ::
  "this_value \<Rightarrow> Database \<Rightarrow> uuid option \<Rightarrow> uuid \<Rightarrow> exn + bool" where
  "folder_valid this db f uid =
     (case f of
        None \<Rightarrow> Inr True
      | Some i \<Rightarrow>
          (case this_db this (select_folders db i uid) of
             Inl x \<Rightarrow> Inl x
           | Inr folderRows \<Rightarrow> Inr (folderRows \<noteq> [])))"

text \<open>
  The last part of \<open>create\<close>, from \<open>// Create credential\<close> on: the row is inserted
  (\<open>url || null\<close>, \<open>notes || null\<close>, \<open>tags || []\<close>, \<open>favorite || false\<close>), the creation
  audited and the response sent.
\<close>

definition create_store ::
  "this_value \<Rightarrow> env \<Rightarrow> Database \<Rightarrow> time \<Rightarrow> CreateCredentialRequest Request \<Rightarrow> User
     \<Rightarrow> jsstring \<Rightarrow> jsstring \<Rightarrow> jsstring \<Rightarrow> Response \<times> Database" where
  "create_store this e db now req u t un pw =
     (case this_db this
             (insert_credential db (user_id u) t un pw
                (if falsy (new_url (body req)) then None else new_url (body req))
                (if falsy (new_notes (body req)) then None else new_notes (body req))
                (new_folderId (body req))
                (case new_tags (body req) of None \<Rightarrow> [] | Some tg \<Rightarrow> tg)
                (case new_favorite (body req) of None \<Rightarrow> False | Some b \<Rightarrow> b)
                now) of
        Inl _ \<Rightarrow> (failure 500 ''Failed to create credential'', db)
      | Inr (credential, db1) \<Rightarrow>
          (case this_db this
                  (insert_audit db1 (user_id u) ''CREDENTIAL_CREATED''
                     (js ''Created credential: '' @ t) (ip req) (user_agent req) now) of
             Inl _ \<Rightarrow> (failure 500 ''Failed to create credential'', db1)
           | Inr db2 \<Rightarrow>
               (ok 201 (Some ''Credential created successfully'')
                  (Some (CredentialData credential)),
                db2)))"

definition create ::
  "this_value \<Rightarrow> env \<Rightarrow> Database \<Rightarrow> time \<Rightarrow> CreateCredentialRequest Request
     \<Rightarrow> Response \<times> Database" where
  "create this e db now req =
     (case user req of
        None \<Rightarrow> (failure 401 ''Not authenticated'', db)
      | Some u \<Rightarrow>
     (case new_title (body req) of
        None \<Rightarrow> (failure 400 ''Title, username, and password are required'', db)
      | Some t \<Rightarrow>
     (case new_username (body req) of
        None \<Rightarrow> (failure 400 ''Title, username, and password are required'', db)
      | Some un \<Rightarrow>
     (case new_password (body req) of
        None \<Rightarrow> (failure 400 ''Title, username, and password are required'', db)
      | Some pw \<Rightarrow>
          if t = [] \<or> un = [] \<or> pw = []
          then (failure 400 ''Title, username, and password are required'', db)
          else
            (case folder_valid this db (new_folderId (body req)) (user_id u) of
               Inl _ \<Rightarrow> (failure 500 ''Failed to create credential'', db)
             | Inr False \<Rightarrow> (failure 400 ''Invalid folder'', db)
             | Inr True \<Rightarrow> create_store this e db now req u t un pw)))))"

text \<open>
  \<open>update\<close> builds its \<open>SET\<close> list from the fields of the body that are not
  \<open>undefined\<close>. \<open>updateFields_length\<close> is the number of those fields, \<open>apply_update\<close> the
  effect of the assignments on one row.
\<close>

definition updateFields_length :: "UpdateCredentialRequest \<Rightarrow> nat" where
  "updateFields_length b =
     (if upd_title b = None then 0 else 1) + (if upd_username b = None then 0 else 1)
     + (if upd_password b = None then 0 else 1) + (if upd_url b = None then 0 else 1)
     + (if upd_notes b = None then 0 else 1) + (if upd_folderId b = None then 0 else 1)
     + (if upd_tags b = None then 0 else 1) + (if upd_favorite b = None then 0 else 1)"

definition apply_update :: "UpdateCredentialRequest \<Rightarrow> time \<Rightarrow> Credential \<Rightarrow> Credential" where
  "apply_update b now c =
     c\<lparr>title := (case upd_title b of None \<Rightarrow> title c | Some v \<Rightarrow> v),
       username := (case upd_username b of None \<Rightarrow> username c | Some v \<Rightarrow> v),
       password := (case upd_password b of None \<Rightarrow> password c | Some v \<Rightarrow> v),
       url := (case upd_url b of None \<Rightarrow> url c | Some v \<Rightarrow> Some v),
       cred_notes := (case upd_notes b of None \<Rightarrow> cred_notes c | Some v \<Rightarrow> Some v),
       folderId := (case upd_folderId b of None \<Rightarrow> folderId c | Some v \<Rightarrow> Some v),
       tags := (case upd_tags b of None \<Rightarrow> tags c | Some v \<Rightarrow> v),
       favorite := (case upd_favorite b of None \<Rightarrow> favorite c | Some v \<Rightarrow> v),
       cred_updatedAt := now\<rparr>"

text \<open>
  \<open>UPDATE credentials SET ..., updated_at = NOW() WHERE id = $n AND user_id = $m
  RETURNING *\<close>: the rows it returns, and the store.
\<close>

definition update_credential ::
  "Database \<Rightarrow> UpdateCredentialRequest \<Rightarrow> uuid \<Rightarrow> uuid \<Rightarrow> time
     \<Rightarrow> exn + (Credential list \<times> Database)" where
  "update_credential db b i uid now =
     (if credentials_table \<in> set (offline db) then Inl DbError
      else
        (let hit = (\<lambda>c. cred_id c = i \<and> cred_userId c = uid);
             rows = map (apply_update b now) (filter hit (credentials db))
         in if list_ex (\<lambda>c. 255 < length (title c) \<or> 255 < length (username c)) rows
            then Inl DbError
            else Inr (rows,
                      db\<lparr>credentials :=
                           map (\<lambda>c. if hit c then apply_update b now c else c)
                             (credentials db)\<rparr>)))"

text \<open>
  The last part of \<open>update\<close>, from \<open>// Build update query dynamically\<close> on.
\<close>

definition update_store ::
  "this_value \<Rightarrow> env \<Rightarrow> Database \<Rightarrow> time \<Rightarrow> UpdateCredentialRequest Request \<Rightarrow> User
     \<Rightarrow> Response \<times> Database" where
  "update_store this e db now req u =
     (if updateFields_length (body req) = 0
      then (failure 400 ''No fields to update'', db)
      else
        (case this_db this
                (update_credential db (body req) (params_id req) (user_id u) now) of
           Inl _ \<Rightarrow> (failure 500 ''Failed to update credential'', db)
         | Inr ([], db1) \<Rightarrow> (failure 500 ''Failed to update credential'', db1)
         | Inr (updatedCredential # _, db1) \<Rightarrow>
             (case this_db this
                     (insert_audit db1 (user_id u) ''CREDENTIAL_UPDATED''
                        (js ''Updated credential: '' @ title updatedCredential)
                        (ip req) (user_agent req) now) of
                Inl _ \<Rightarrow> (failure 500 ''Failed to update credential'', db1)
              | Inr db2 \<Rightarrow>
                  (ok 200 (Some ''Credential updated successfully'')
                     (Some (CredentialData updatedCredential)),
                   db2))))"

definition update ::
  "this_value \<Rightarrow> env \<Rightarrow> Database \<Rightarrow> time \<Rightarrow> UpdateCredentialRequest Request
     \<Rightarrow> Response \<times> Database" where
  "update this e db now req =
     (case user req of
        None \<Rightarrow> (failure 401 ''Not authenticated'', db)
      | Some u \<Rightarrow>
          (case this_db this (select_credentials db (params_id req) (user_id u)) of
             Inl _ \<Rightarrow> (failure 500 ''Failed to update credential'', db)
           | Inr [] \<Rightarrow> (failure 404 ''Credential not found'', db)
           | Inr (existingCredential # _) \<Rightarrow>
               (case folder_valid this db (upd_folderId (body req)) (user_id u) of
                  Inl _ \<Rightarrow> (failure 500 ''Failed to update credential'', db)
                | Inr False \<Rightarrow> (failure 400 ''Invalid folder'', db)
                | Inr True \<Rightarrow> update_store this e db now req u)))"

section \<open>The routes\<close>

text \<open>
  \<open>initializeRoutes\<close> hands the handler functions themselves to the router
  (\<open>apiRouter.post('/auth/login', AuthController.login)\<close>,
  \<open>protectedRouter.post('/auth/refresh', AuthController.refreshToken)\<close>, ...), so a
  routed handler runs with \<open>this\<close> undefined; the routes of the protected router run
  \<open>authenticate\<close> first.
\<close>

definition login_route ::
  "env \<Rightarrow> Database \<Rightarrow> time \<Rightarrow> uuid \<Rightarrow> LoginRequest Request \<Rightarrow> Response \<times> Database" where
  "login_route e db now uuid req = login This_undefined e db now uuid req"

definition refresh_route ::
  "env \<Rightarrow> Database \<Rightarrow> time \<Rightarrow> 'b Request \<Rightarrow> Response \<times> Database" where
  "refresh_route e db now req =
     (case authenticate e db now req of
        Respond r \<Rightarrow> (r, db)
      | Next req' \<Rightarrow> refreshToken This_undefined e db now req')"

section \<open>A concrete environment\<close>

text \<open>
  Stand-ins for the libraries, used to run the handlers on concrete requests. A token
  is the user id, the second of issue and the lifetime in days, followed by the secret
  in place of the signature; verification rejects a token whose secret differs and one
  whose lifetime has run out, as \<open>jsonwebtoken\<close> does on the clock's seconds. A password
  hash is the password behind a prefix, the one-time check accepts the secret followed
  by the number of the current 30-second window, and a day has 24 hours.
\<close>

definition toy_env :: env where
  "toy_env =
     \<lparr>JWT_SECRET = Some (js ''k''),
      jwt_sign = (\<lambda>(uid, em) secret expiresIn now.
          [of_nat uid, of_nat (now div 1000), (if expiresIn = ''7d'' then 7 else 1)] @ secret),
      jwt_verify = (\<lambda>tok secret now.
          case tok of
            u # t # d # sig \<Rightarrow>
              if sig \<noteq> secret then Inl JsonWebTokenError
              else if unat t + unat d * 86400 \<le> now div 1000 then Inl TokenExpiredError
              else Inr \<lparr>userId = unat u, email = [], iat = unat t,
                        exp = unat t + unat d * 86400\<rparr>
          | _ \<Rightarrow> Inl JsonWebTokenError),
      bcrypt_hash = (\<lambda>pw rounds g. js ''$2a$'' @ pw),
      bcrypt_compare = (\<lambda>pw h. h = js ''$2a$'' @ pw),
      toLowerCase = (\<lambda>s. s),
      authenticator_verify = (\<lambda>tok secret now.
          case secret of
            JString x \<Rightarrow> Some (tok = x @ [of_nat (now div 30000)])
          | _ \<Rightarrow> None),
      addDays = (\<lambda>t n. t + n * 86400000)\<rparr>"

text \<open>
  A store with two users, \<open>alice\<close> without and \<open>bob\<close> with a second factor, and the
  requests used below.
\<close>

definition alice :: User where
  "alice =
     \<lparr>user_id = 1, user_email = js ''alice@example.com'',
      password_hash = js ''$2a$CorrectHorseBattery1!'', master_key_salt = js ''0a1b'',
      two_factor_secret = None, two_factor_enabled = False, user_created_at = 0,
      user_updated_at = 0, last_login_at = None\<rparr>"

definition bob :: User where
  "bob =
     \<lparr>user_id = 2, user_email = js ''bob@example.com'',
      password_hash = js ''$2a$hunter2hunter2'', master_key_salt = js ''0c0d'',
      two_factor_secret = Some (js ''S''), two_factor_enabled = True, user_created_at = 0,
      user_updated_at = 0, last_login_at = None\<rparr>"

definition toy_db :: Database where
  "toy_db =
     \<lparr>users = [alice, bob], sessions = [], security_audit = [], credentials = [],
      folders = [], password_history = [], next_id = 10, offline = []\<rparr>"

definition request :: "jsstring option \<Rightarrow> User option \<Rightarrow> 'b \<Rightarrow> 'b Request" where
  "request h u b =
     \<lparr>authorization = h, ip = Some (js ''10.0.0.7''), user_agent = None, user = u,
      params_id = 0, body = b\<rparr>"

definition login_request :: "string \<Rightarrow> string \<Rightarrow> jsstring option \<Rightarrow> LoginRequest Request" where
  "login_request em pw code =
     request None None
       \<lparr>login_email = Some (js em), login_password = Some (js pw), twoFactorCode = code,
        rememberMe = False\<rparr>"

text \<open>The store with one session row of \<open>alice\<close> that expires at \<open>t\<close>.\<close>

definition session_db :: "time \<Rightarrow> Database" where
  "session_db t =
     toy_db\<lparr>sessions :=
       [\<lparr>session_id = 77, session_userId = 1, token = [1, 0, 1] @ js ''k'', expiresAt = t,
         session_createdAt = 500, userAgent = None, ipAddress = Some (js ''10.0.0.7'')\<rparr>]\<rparr>"

definition register_request ::
  "string \<Rightarrow> string \<Rightarrow> string \<Rightarrow> RegisterRequest Request" where
  "register_request em pw cpw =
     request None None
       \<lparr>reg_email = Some (js em), reg_password = Some (js pw), confirmPassword = Some (js cpw)\<rparr>"


section \<open>Properties of the hex codec\<close>

lemma unat_hexDigit: "n < 16 \<Longrightarrow> unat (hexDigit n) = (if n < 10 then 48 + n else 87 + n)"
  unfolding hexDigit_def by (simp add: unat_of_nat del: of_nat_add of_nat_numeral)

lemma hexValue_hexDigit: "n < 16 \<Longrightarrow> hexValue (hexDigit n) = Some n"
  by (simp add: hexValue_def unat_hexDigit Let_def)

lemma high_nibble_bound: "unat (x :: byte) div 16 < 16"
proof -
  have "unat x < 256" using unsigned_less [of x] by simp
  then show ?thesis by simp
qed

text \<open>Decoding the hex encoding of a buffer returns the buffer.\<close>

lemma fromHex_toHex: "fromHex (toHex b) = b"
  by (induction b) (simp_all add: toHex_def hexValue_hexDigit high_nibble_bound)

text \<open>
  The decoder reads the low byte of a code unit: U+0130 and U+0131 count as the digits
  \<open>0\<close> and \<open>1\<close>.
\<close>

lemma fromHex_low_byte: "fromHex [304, 305] = [1]"
  by (simp add: hexValue_def)

section \<open>Properties of the UTF-8 codec\<close>

lemma unat_byte: "n < 256 \<Longrightarrow> unat (of_nat n :: byte) = n"
  by (simp add: unat_of_nat)

lemma unat_unit_bound: "unat (u :: code_unit) < 65536"
  using unsigned_less [of u] by simp

lemma digits:
  fixes c :: nat
  shows "c div 4096 = c div 64 div 64" "c div 262144 = c div 64 div 64 div 64"
    "c div 4096 mod 64 = c div 64 div 64 mod 64"
  by (simp_all add: div_mult2_eq [symmetric])

lemma div64_less: "(c::nat) < n * 64 \<Longrightarrow> c div 64 < n"
  by (simp add: div_less_iff_less_mult)

lemma div64_ge: "n * 64 \<le> (c::nat) \<Longrightarrow> n \<le> c div 64"
  by (simp add: less_eq_div_iff_mult_less_eq)

lemma mod_add_numeral:
  fixes a :: nat
  shows "a < 32 \<Longrightarrow> (192 + a) mod 32 = a" "a < 16 \<Longrightarrow> (224 + a) mod 16 = a"
    "a < 8 \<Longrightarrow> (240 + a) mod 8 = a" "a < 64 \<Longrightarrow> (128 + a) mod 64 = a"
proof -
  have "(192 + a) mod 32 = (6 * 32 + a) mod 32" by simp
  also have "\<dots> = a mod 32" by (simp only: mod_mult_self3)
  finally show "a < 32 \<Longrightarrow> (192 + a) mod 32 = a" by simp
  have "(224 + a) mod 16 = (14 * 16 + a) mod 16" by simp
  also have "\<dots> = a mod 16" by (simp only: mod_mult_self3)
  finally show "a < 16 \<Longrightarrow> (224 + a) mod 16 = a" by simp
  have "(240 + a) mod 8 = (30 * 8 + a) mod 8" by simp
  also have "\<dots> = a mod 8" by (simp only: mod_mult_self3)
  finally show "a < 8 \<Longrightarrow> (240 + a) mod 8 = a" by simp
  have "(128 + a) mod 64 = (2 * 64 + a) mod 64" by simp
  also have "\<dots> = a mod 64" by (simp only: mod_mult_self3)
  finally show "a < 64 \<Longrightarrow> (128 + a) mod 64 = a" by simp
qed

text \<open>
  Decoding the encoding of a Unicode scalar value (a code point that is not a
  surrogate) returns it, whatever bytes follow. The four cases are the four lengths
  of the encoding.
\<close>

lemma decode_ascii:
  assumes "c < 128"
  shows "utf8_decode_from 0 0 128 191 (utf8_of_code_point c @ bs)
         = c # utf8_decode_from 0 0 128 191 bs"
proof -
  have u: "utf8_of_code_point c = [of_nat c]" using assms by (simp add: utf8_of_code_point_def)
  have n: "unat (of_nat c :: byte) = c" using assms by (simp add: unat_byte)
  show ?thesis unfolding u using assms by (simp add: n utf8_lead_def)
qed

lemma decode_two:
  assumes "128 \<le> c" "c < 2048"
  shows "utf8_decode_from 0 0 128 191 (utf8_of_code_point c @ bs)
         = c # utf8_decode_from 0 0 128 191 bs"
proof -
  define a where "a = c div 64"
  define d where "d = c mod 64"
  have c: "a * 64 + d = c" unfolding a_def d_def by simp
  have r: "a < 32" "2 \<le> a" "d < 64"
    using assms unfolding a_def d_def by (simp_all add: div64_less div64_ge)
  have u: "utf8_of_code_point c = [of_nat (192 + a), of_nat (128 + d)]"
    using assms by (simp add: utf8_of_code_point_def a_def d_def)
  have n: "unat (of_nat (192 + a) :: byte) = 192 + a" "unat (of_nat (128 + d) :: byte) = 128 + d"
    using r by (simp_all only: unat_byte)
  have l: "utf8_lead (192 + a) = Begin a 1 128 191"
    using r by (simp add: utf8_lead_def mod_add_numeral)
  have s1: "utf8_decode_from 0 0 128 191 (of_nat (192 + a) # of_nat (128 + d) # bs)
      = utf8_decode_from a 1 128 191 (of_nat (128 + d) # bs)"
    by (simp only: utf8_decode_from.simps n Let_def l) simp
  have s2: "utf8_decode_from a 1 128 191 (of_nat (128 + d) # bs)
      = (a * 64 + d) # utf8_decode_from 0 0 128 191 bs"
    using r by (simp only: utf8_decode_from.simps n Let_def mod_add_numeral) simp
  show ?thesis unfolding u by (simp only: append.simps s1 s2 c)
qed

lemma decode_three:
  assumes "2048 \<le> c" "c < 65536" "\<not> (55296 \<le> c \<and> c < 57344)"
  shows "utf8_decode_from 0 0 128 191 (utf8_of_code_point c @ bs)
         = c # utf8_decode_from 0 0 128 191 bs"
proof -
  define q where "q = c div 64"
  define a where "a = q div 64"
  define b where "b = q mod 64"
  define d where "d = c mod 64"
  have cq: "q * 64 + d = c" unfolding q_def d_def by simp
  have qa: "a * 64 + b = q" unfolding a_def b_def by simp
  have c: "(a * 64 + b) * 64 + d = c" using cq qa by simp
  have rq: "q < 1024" "32 \<le> q" using assms unfolding q_def by (simp_all add: div64_less div64_ge)
  have r: "a < 16" "b < 64" "d < 64"
    using rq unfolding a_def b_def d_def by (simp_all add: div64_less)
  have lo: "a = 0 \<Longrightarrow> 32 \<le> b" using rq qa by simp
  have "\<not> (864 \<le> q \<and> q < 896)" using assms(3) cq r(3) by linarith
  then have hi: "a = 13 \<Longrightarrow> b < 32" using qa r by linarith
  have u: "utf8_of_code_point c = [of_nat (224 + a), of_nat (128 + b), of_nat (128 + d)]"
    using assms by (simp add: utf8_of_code_point_def a_def b_def d_def q_def digits)
  have n: "unat (of_nat (224 + a) :: byte) = 224 + a" "unat (of_nat (128 + b) :: byte) = 128 + b"
    "unat (of_nat (128 + d) :: byte) = 128 + d"
    using r by (simp_all only: unat_byte)
  have l: "utf8_lead (224 + a)
      = Begin a 2 (if a = 0 then 160 else 128) (if a = 13 then 159 else 191)"
    using r by (simp add: utf8_lead_def mod_add_numeral)
  have s1: "utf8_decode_from 0 0 128 191 (of_nat (224 + a) # of_nat (128 + b) # of_nat (128 + d) # bs)
      = utf8_decode_from a 2 (if a = 0 then 160 else 128) (if a = 13 then 159 else 191)
          (of_nat (128 + b) # of_nat (128 + d) # bs)"
    by (simp only: utf8_decode_from.simps n Let_def l) simp
  have s2: "utf8_decode_from a 2 (if a = 0 then 160 else 128) (if a = 13 then 159 else 191)
          (of_nat (128 + b) # of_nat (128 + d) # bs)
      = utf8_decode_from (a * 64 + b) 1 128 191 (of_nat (128 + d) # bs)"
    using r lo hi by (simp only: utf8_decode_from.simps n Let_def mod_add_numeral) auto
  have s3: "utf8_decode_from (a * 64 + b) 1 128 191 (of_nat (128 + d) # bs)
      = ((a * 64 + b) * 64 + d) # utf8_decode_from 0 0 128 191 bs"
    using r by (simp only: utf8_decode_from.simps n Let_def mod_add_numeral) simp
  show ?thesis unfolding u by (simp only: append.simps s1 s2 s3 c)
qed

lemma decode_four:
  assumes "65536 \<le> c" "c < 1114112"
  shows "utf8_decode_from 0 0 128 191 (utf8_of_code_point c @ bs)
         = c # utf8_decode_from 0 0 128 191 bs"
proof -
  define q where "q = c div 64"
  define p where "p = q div 64"
  define a where "a = p div 64"
  define b where "b = p mod 64"
  define d where "d = q mod 64"
  define f where "f = c mod 64"
  have cq: "q * 64 + f = c" unfolding q_def f_def by simp
  have qp: "p * 64 + d = q" unfolding p_def d_def by simp
  have pa: "a * 64 + b = p" unfolding a_def b_def by simp
  have c: "((a * 64 + b) * 64 + d) * 64 + f = c" using cq qp pa by simp
  have rq: "q < 17408" "1024 \<le> q"
    using assms unfolding q_def by (simp_all add: div64_less div64_ge)
  have rp: "p < 272" "16 \<le> p" using rq unfolding p_def by (simp_all add: div64_less div64_ge)
  have r: "a < 5" "b < 64" "d < 64" "f < 64"
    using rp unfolding a_def b_def d_def f_def by (simp_all add: div64_less)
  have lo: "a = 0 \<Longrightarrow> 16 \<le> b" using rp pa by simp
  have hi: "a = 4 \<Longrightarrow> b < 16" using rp pa by simp
  have u: "utf8_of_code_point c
      = [of_nat (240 + a), of_nat (128 + b), of_nat (128 + d), of_nat (128 + f)]"
    using assms
    by (simp add: utf8_of_code_point_def a_def b_def d_def f_def p_def q_def digits)
  have n: "unat (of_nat (240 + a) :: byte) = 240 + a" "unat (of_nat (128 + b) :: byte) = 128 + b"
    "unat (of_nat (128 + d) :: byte) = 128 + d" "unat (of_nat (128 + f) :: byte) = 128 + f"
    using r by (simp_all only: unat_byte)
  have l: "utf8_lead (240 + a)
      = Begin a 3 (if a = 0 then 144 else 128) (if a = 4 then 143 else 191)"
    using r by (simp add: utf8_lead_def mod_add_numeral)
  have s1: "utf8_decode_from 0 0 128 191
        (of_nat (240 + a) # of_nat (128 + b) # of_nat (128 + d) # of_nat (128 + f) # bs)
      = utf8_decode_from a 3 (if a = 0 then 144 else 128) (if a = 4 then 143 else 191)
          (of_nat (128 + b) # of_nat (128 + d) # of_nat (128 + f) # bs)"
    by (simp only: utf8_decode_from.simps n Let_def l) simp
  have s2: "utf8_decode_from a 3 (if a = 0 then 144 else 128) (if a = 4 then 143 else 191)
          (of_nat (128 + b) # of_nat (128 + d) # of_nat (128 + f) # bs)
      = utf8_decode_from (a * 64 + b) 2 128 191 (of_nat (128 + d) # of_nat (128 + f) # bs)"
    using r lo hi by (simp only: utf8_decode_from.simps n Let_def mod_add_numeral) auto
  have s3: "utf8_decode_from (a * 64 + b) 2 128 191 (of_nat (128 + d) # of_nat (128 + f) # bs)
      = utf8_decode_from ((a * 64 + b) * 64 + d) 1 128 191 (of_nat (128 + f) # bs)"
    using r by (simp only: utf8_decode_from.simps n Let_def mod_add_numeral) simp
  have s4: "utf8_decode_from ((a * 64 + b) * 64 + d) 1 128 191 (of_nat (128 + f) # bs)
      = (((a * 64 + b) * 64 + d) * 64 + f) # utf8_decode_from 0 0 128 191 bs"
    using r by (simp only: utf8_decode_from.simps n Let_def mod_add_numeral) simp
  show ?thesis unfolding u by (simp only: append.simps s1 s2 s3 s4 c)
qed

lemma decode_code_point:
  assumes "c < 1114112" "\<not> (55296 \<le> c \<and> c < 57344)"
  shows "utf8_decode_from 0 0 128 191 (utf8_of_code_point c @ bs)
         = c # utf8_decode_from 0 0 128 191 bs"
proof -
  consider "c < 128" | "128 \<le> c" "c < 2048" | "2048 \<le> c" "c < 65536" | "65536 \<le> c"
    by linarith
  then show ?thesis
    using assms by cases (simp_all add: decode_ascii decode_two decode_three decode_four)
qed

text \<open>The code points that the encoder reads off a string are scalar values.\<close>

lemma single_scalar:
  fixes u :: code_unit
  defines "c \<equiv> (if is_high (unat u) \<or> is_low (unat u) then 65533 else unat u)"
  shows "c < 1114112 \<and> \<not> (55296 \<le> c \<and> c < 57344)"
proof (cases "is_high (unat u) \<or> is_low (unat u)")
  case True
  then show ?thesis unfolding c_def by simp
next
  case False
  then show ?thesis
    unfolding c_def is_high_def is_low_def using unat_unit_bound [of u] by auto
qed

lemma pair_scalar:
  assumes "is_high h" "is_low w"
  shows "65536 + (h - 55296) * 1024 + (w - 56320) < 1114112
       \<and> \<not> (55296 \<le> 65536 + (h - 55296) * 1024 + (w - 56320)
            \<and> 65536 + (h - 55296) * 1024 + (w - 56320) < 57344)"
  using assms unfolding is_high_def is_low_def by arith

lemma code_points_scalar:
  "c \<in> set (code_points s) \<Longrightarrow> c < 1114112 \<and> \<not> (55296 \<le> c \<and> c < 57344)"
proof (induction s arbitrary: c rule: code_points.induct)
  case 1
  then show ?case by simp
next
  case (2 u)
  then have "c = (if is_high (unat u) \<or> is_low (unat u) then 65533 else unat u)" by simp
  then show ?case using single_scalar [of u] by simp
next
  case (3 u l rest)
  show ?case
  proof (cases "is_high (unat u) \<and> is_low (unat l)")
    case True
    then have "code_points (u # l # rest)
        = (65536 + (unat u - 55296) * 1024 + (unat l - 56320)) # code_points rest"
      by simp
    with "3.prems" have "c = 65536 + (unat u - 55296) * 1024 + (unat l - 56320)
        \<or> c \<in> set (code_points rest)"
      by simp
    then show ?thesis
    proof
      assume "c = 65536 + (unat u - 55296) * 1024 + (unat l - 56320)"
      then show ?thesis using pair_scalar [of "unat u" "unat l"] True by simp
    next
      assume "c \<in> set (code_points rest)"
      then show ?thesis by (rule "3.IH"(1) [OF True])
    qed
  next
    case False
    then have "code_points (u # l # rest)
        = (if is_high (unat u) \<or> is_low (unat u) then 65533 else unat u) # code_points (l # rest)"
      by simp
    with "3.prems" have "c = (if is_high (unat u) \<or> is_low (unat u) then 65533 else unat u)
        \<or> c \<in> set (code_points (l # rest))"
      by simp
    then show ?thesis
    proof
      assume "c = (if is_high (unat u) \<or> is_low (unat u) then 65533 else unat u)"
      then show ?thesis using single_scalar [of u] by simp
    next
      assume "c \<in> set (code_points (l # rest))"
      then show ?thesis by (rule "3.IH"(2) [OF False])
    qed
  qed
qed

lemma decode_encode_code_points:
  assumes "\<forall>c \<in> set cs. c < 1114112 \<and> \<not> (55296 \<le> c \<and> c < 57344)"
  shows "utf8_decode_from 0 0 128 191 (concat (map utf8_of_code_point cs)) = cs"
  using assms by (induction cs) (simp_all add: decode_code_point)

text \<open>
  Decoding the encoding of a string returns the string with every surrogate that is
  not half of a pair replaced by U+FFFD.
\<close>

lemma node_utf8_decode_encode:
  "node_utf8_decode (node_utf8_encode s) = concat (map units_of_code_point (code_points s))"
  unfolding node_utf8_decode_def node_utf8_encode_def
  by (simp add: decode_encode_code_points code_points_scalar)

lemma units_single:
  fixes u :: code_unit
  shows "units_of_code_point (if is_high (unat u) \<or> is_low (unat u) then 65533 else unat u) = [u]
   \<longleftrightarrow> \<not> is_high (unat u) \<and> \<not> is_low (unat u)"
proof (cases "is_high (unat u) \<or> is_low (unat u)")
  case True
  then have "unat u \<noteq> 65533" by (auto simp: is_high_def is_low_def)
  then have "u \<noteq> 65533" by auto
  with True show ?thesis by (simp add: units_of_code_point_def)
next
  case False
  then show ?thesis using unat_unit_bound [of u] by (simp add: units_of_code_point_def)
qed

lemma units_single_length:
  fixes u :: code_unit
  shows "length (units_of_code_point (if is_high (unat u) \<or> is_low (unat u) then 65533 else unat u)) = 1"
  using unat_unit_bound [of u] by (simp add: units_of_code_point_def)

lemma units_pair:
  fixes u l :: code_unit
  assumes "is_high (unat u)" "is_low (unat l)"
  shows "units_of_code_point (65536 + (unat u - 55296) * 1024 + (unat l - 56320)) = [u, l]"
proof -
  define h where "h = unat u - 55296"
  define w where "w = unat l - 56320"
  have r: "h < 1024" "w < 1024" "unat u = 55296 + h" "unat l = 56320 + w"
    using assms unfolding h_def w_def by (auto simp: is_high_def is_low_def)
  have dm: "(h * 1024 + w) div 1024 = h" "(h * 1024 + w) mod 1024 = w"
    using r by simp_all
  have "of_nat (55296 + h) = u" "of_nat (56320 + w) = l"
    using r(3,4) by (metis of_nat_unat ucast_id)+
  then show ?thesis
    unfolding h_def [symmetric] w_def [symmetric]
    by (simp add: units_of_code_point_def dm r(1,2) del: of_nat_add)
qed

lemma sanitize_iff:
  "concat (map units_of_code_point (code_points s)) = s \<longleftrightarrow> well_formed s"
proof (induction s rule: code_points.induct)
  case 1
  then show ?case by simp
next
  case (2 u)
  then show ?case using units_single [of u] by simp
next
  case (3 u l rest)
  show ?case
  proof (cases "is_high (unat u) \<and> is_low (unat l)")
    case True
    then show ?thesis using 3(1) by (simp add: units_pair)
  next
    case False
    let ?c = "if is_high (unat u) \<or> is_low (unat u) then 65533 else unat u"
    obtain x where x: "units_of_code_point ?c = [x]"
      using units_single_length [of u]
      by (cases "units_of_code_point ?c") auto
    have xu: "x = u \<longleftrightarrow> \<not> is_high (unat u) \<and> \<not> is_low (unat u)"
      using units_single [of u] x by simp
    have nl: "is_high (unat u) \<Longrightarrow> \<not> is_low (unat u)"
      by (simp add: is_high_def is_low_def)
    from False 3(2) x xu show ?thesis
      by (auto simp: nl)
  qed
qed

text \<open>So the codec returns a string unchanged exactly when the string is well formed.\<close>

lemma node_utf8_roundtrip_iff:
  "node_utf8_decode (node_utf8_encode s) = s \<longleftrightarrow> well_formed s"
  by (simp add: node_utf8_decode_encode sanitize_iff)

section \<open>Evaluating the concrete environment\<close>

lemmas toy_simps = toy_env_def toy_db_def alice_def bob_def request_def js_def
  failure_def ok_def

lemmas db_simps = select_users_by_email_def select_users_by_id_def select_sessions_def
  insert_session_def update_last_login_def insert_audit_def update_session_token_def

lemmas utf8_simps = node_utf8_encode_def node_utf8_decode_def utf8_of_code_point_def
  utf8_lead_def units_of_code_point_def is_high_def is_low_def

section \<open>Properties of the middleware\<close>

lemma startsWith_Bearer: "startsWith (js ''Bearer '' @ t) (js ''Bearer '')"
  by (simp add: startsWith_def js_def)

lemma substring_Bearer: "substring (js ''Bearer '' @ t) 7 = t"
  by (simp add: substring_def js_def)

lemma startsWith_nonempty: "startsWith h (js ''Bearer '') \<Longrightarrow> h \<noteq> []"
  by (auto simp: startsWith_def js_def)

text \<open>What \<open>authenticate\<close> has checked when it calls \<open>next()\<close>, and the converse.\<close>

lemma authenticate_NextD:
  assumes "authenticate e db now req = Next req'"
  shows "\<exists>h secret decoded rows u us.
           authorization req = Some h \<and> startsWith h (js ''Bearer '')
           \<and> JWT_SECRET e = Some secret \<and> secret \<noteq> []
           \<and> jwt_verify e (substring h 7) secret now = Inr decoded
           \<and> select_sessions db (substring h 7) now = Inr rows \<and> rows \<noteq> []
           \<and> select_users_by_id db (userId decoded) = Inr (u # us)
           \<and> req' = req\<lparr>user := Some u\<rparr>"
  using assms
  by (auto simp: authenticate_def authenticate_catch_def failure_def Let_def
      split: option.splits if_splits sum.splits list.splits)

lemma authenticate_NextI:
  assumes "authorization req = Some h" "startsWith h (js ''Bearer '')"
    "JWT_SECRET e = Some secret" "secret \<noteq> []"
    "jwt_verify e (substring h 7) secret now = Inr decoded"
    "select_sessions db (substring h 7) now = Inr rows" "rows \<noteq> []"
    "select_users_by_id db (userId decoded) = Inr (u # us)"
  shows "authenticate e db now req = Next (req\<lparr>user := Some u\<rparr>)"
  using assms startsWith_nonempty [of h]
  by (simp add: authenticate_def Let_def)

text \<open>Every response that \<open>authenticate\<close> sends itself is a failure.\<close>

lemma authenticate_Respond_failure:
  "authenticate e db now req = Respond r \<Longrightarrow> \<not> success r"
  by (auto simp: authenticate_def authenticate_catch_def failure_def Let_def
      split: option.splits if_splits sum.splits list.splits)

section \<open>EncryptionService: key derivation and envelopes\<close>

text \<open>
  C1 (a fresh random nonce for the cipher on every \<open>encrypt\<close>, never reused under a key).
  The code draws 16 random bytes and stores them in the envelope, but the cipher is
  created from the key alone, so the IV it runs under is the one derived from the key:
  whatever the random source yields, two calls under one key seal under the same IV,
  and for equal plaintexts the ciphertext and the tag of the two envelopes are equal.
\<close>

theorem encrypt_nonce_fixed_by_key:
  "c_iv (setAAD (createCipher lib ALGORITHM k) a) = snd (EVP_BytesToKey lib ALGORITHM k)
   \<and> encrypted (fst (encrypt lib d k g1)) = encrypted (fst (encrypt lib d k g2))
   \<and> authTag (fst (encrypt lib d k g1)) = authTag (fst (encrypt lib d k g2))
   \<and> authTag (fst (encrypt lib d k g1)) =
       toHex (snd (aead_seal lib ALGORITHM (fst (EVP_BytesToKey lib ALGORITHM k))
                     (snd (EVP_BytesToKey lib ALGORITHM k))
                     (utf8_encode lib (js ''yikes-password-manager''))
                     (utf8_encode lib d)))"
  by (simp add: encrypt_def createCipher_def setAAD_def Let_def split: prod.splits)

text \<open>
  Decrypting, under the same key, the envelope that \<open>encrypt\<close> made of a plaintext
  returns the plaintext as the \<open>'utf8'\<close> codec hands it back, for every key and every
  state of the random source. The cipher is assumed correct: opening what was sealed
  under the same key, IV and AAD returns the sealed bytes.
\<close>

lemma decrypt_encrypt_codec:
  assumes seal_open: "\<And>k v a p. aead_open lib ALGORITHM k v a
             (fst (aead_seal lib ALGORITHM k v a p)) (snd (aead_seal lib ALGORITHM k v a p)) = Some p"
  shows "decrypt lib (fst (encrypt lib d masterKey g)) masterKey
         = Inr (utf8_decode lib (utf8_encode lib d))"
proof -
  let ?aad = "utf8_encode lib (js ''yikes-password-manager'')"
  obtain k v where kv: "EVP_BytesToKey lib ALGORITHM masterKey = (k, v)"
    by (cases "EVP_BytesToKey lib ALGORITHM masterKey")
  obtain ct tag where st: "aead_seal lib ALGORITHM k v ?aad (utf8_encode lib d) = (ct, tag)"
    by (cases "aead_seal lib ALGORITHM k v ?aad (utf8_encode lib d)")
  have op: "aead_open lib ALGORITHM k v ?aad ct tag = Some (utf8_encode lib d)"
    using seal_open [of k v ?aad "utf8_encode lib d"] st by simp
  show ?thesis
    by (simp add: decrypt_def encrypt_def createCipher_def createDecipher_def setAAD_def Let_def
        kv st op fromHex_toHex split: prod.splits)
qed

lemma node_codec_seal_open:
  "aead_open node_codec_crypto ALGORITHM k v a
     (fst (aead_seal node_codec_crypto ALGORITHM k v a p))
     (snd (aead_seal node_codec_crypto ALGORITHM k v a p)) = Some p"
  by (simp add: node_codec_crypto_def toy_crypto_def)

lemma node_codec_fields:
  "utf8_encode node_codec_crypto = node_utf8_encode"
  "utf8_decode node_codec_crypto = node_utf8_decode"
  by (simp_all add: node_codec_crypto_def)

text \<open>
  C2 as stated (for every plaintext string the round trip returns exactly the
  plaintext) fails for a string with a surrogate that is not half of a pair: the
  \<open>'utf8'\<close> input encoding writes it as U+FFFD, and that is what comes back.
\<close>

theorem decrypt_lone_surrogate_counterexample:
  "decrypt node_codec_crypto
     (fst (encrypt node_codec_crypto [97, 55296, 98] [1, 2, 3, 4] (\<lambda>i. of_nat i))) [1, 2, 3, 4]
   = Inr [97, 65533, 98]
   \<and> [97, 65533, 98] \<noteq> ([97, 55296, 98] :: jsstring)"
proof -
  have "node_utf8_decode (node_utf8_encode [97, 55296, 98]) = [97, 65533, 98]"
    by (simp add: utf8_simps)
  then show ?thesis
    by (simp add: decrypt_encrypt_codec [of node_codec_crypto, OF node_codec_seal_open]
        node_codec_fields)
qed

text \<open>
  C2, amended: for every plaintext, key and state of the random source, decrypting the
  envelope under the same key returns the plaintext after one pass through the
  \<open>'utf8'\<close> codec (encoded, then decoded). With Node's codec this is exactly the
  original plaintext if every surrogate of the plaintext is half of a pair, and a
  different string otherwise. The cipher is assumed to open what it sealed.
\<close>

theorem decrypt_encrypt_roundtrip:
  assumes seal_open: "\<And>k v a p. aead_open lib ALGORITHM k v a
             (fst (aead_seal lib ALGORITHM k v a p)) (snd (aead_seal lib ALGORITHM k v a p)) = Some p"
  shows "decrypt lib (fst (encrypt lib d masterKey g)) masterKey
           = Inr (utf8_decode lib (utf8_encode lib d))
       \<and> (utf8_encode lib = node_utf8_encode \<and> utf8_decode lib = node_utf8_decode \<longrightarrow>
            (decrypt lib (fst (encrypt lib d masterKey g)) masterKey = Inr d) = well_formed d)"
  using decrypt_encrypt_codec [of lib d masterKey g, OF seal_open]
  by (simp add: node_utf8_roundtrip_iff)

theorem decrypt_encrypt_roundtrip_witness:
  "well_formed (js ''p@ss1234'')
   \<and> decrypt node_codec_crypto
       (fst (encrypt node_codec_crypto (js ''p@ss1234'') [1, 2, 3, 4] (\<lambda>i. of_nat i)))
       [1, 2, 3, 4]
     = Inr (js ''p@ss1234'')
   \<and> \<not> well_formed [97, 55296, 98]
   \<and> decrypt node_codec_crypto
       (fst (encrypt node_codec_crypto [97, 55296, 98] [1, 2, 3, 4] (\<lambda>i. of_nat i)))
       [1, 2, 3, 4]
     \<noteq> Inr [97, 55296, 98]"
proof -
  have w1: "well_formed (js ''p@ss1234'')"
    by (simp add: js_def is_high_def is_low_def)
  have w2: "\<not> well_formed [97, 55296, 98]"
    by (simp add: is_high_def is_low_def)
  have f: "utf8_encode node_codec_crypto = node_utf8_encode
      \<and> utf8_decode node_codec_crypto = node_utf8_decode"
    by (simp add: node_codec_fields)
  note T = decrypt_encrypt_roundtrip
      [of node_codec_crypto, OF node_codec_seal_open, THEN conjunct2, rule_format, OF f]
  from T [of "js ''p@ss1234''" "[1, 2, 3, 4]" "\<lambda>i. of_nat i"] w1
  have a: "decrypt node_codec_crypto
       (fst (encrypt node_codec_crypto (js ''p@ss1234'') [1, 2, 3, 4] (\<lambda>i. of_nat i)))
       [1, 2, 3, 4]
     = Inr (js ''p@ss1234'')"
    by blast
  from T [of "[97, 55296, 98]" "[1, 2, 3, 4]" "\<lambda>i. of_nat i"] w2
  have b: "decrypt node_codec_crypto
       (fst (encrypt node_codec_crypto [97, 55296, 98] [1, 2, 3, 4] (\<lambda>i. of_nat i)))
       [1, 2, 3, 4]
     \<noteq> Inr [97, 55296, 98]"
    by blast
  from w1 a w2 b show ?thesis by blast
qed

text \<open>
  C3 as stated (with a salt supplied, the returned salt equals the supplied one) fails
  for a salt written in upper-case hex: the returned salt is the re-encoding of the
  decoded bytes.
\<close>

theorem deriveMasterKey_returned_salt_counterexample:
  "mk_salt (fst (deriveMasterKey toy_crypto (js ''secret'') (Some (js ''AB'')) (\<lambda>i. 0)))
   \<noteq> js ''AB''"
  by (simp add: deriveMasterKey_def js_def toHex_def hexValue_def hexDigit_def Let_def)

text \<open>
  C3, amended: for a supplied salt that is not the empty string, \<open>deriveMasterKey\<close> does
  not touch the random source and two calls return the same result, whose key is
  PBKDF2 (100000 iterations, 32 bytes, sha512) of the secret and the hex-decoded salt
  and whose salt is the hex re-encoding of the decoded salt: the supplied salt itself
  whenever that is the hex encoding of some bytes. An empty salt string is treated as
  an omitted salt.
\<close>

text \<open>
  C3, amended: for a supplied salt that is not the empty string, \<open>deriveMasterKey\<close> does
  not touch the random source and two calls return the same result, whose key is
  PBKDF2 (100000 iterations, 32 bytes, sha512) of the secret and the hex-decoded salt
  and whose salt is the hex re-encoding of the decoded salt: the supplied salt itself
  whenever that is the hex encoding of some bytes. An empty salt string is treated as
  an omitted salt.
\<close>

theorem deriveMasterKey_deterministic:
  assumes "s \<noteq> []"
  shows "fst (deriveMasterKey lib pw (Some s) g1) = fst (deriveMasterKey lib pw (Some s) g2)
       \<and> key (fst (deriveMasterKey lib pw (Some s) g1))
           = pbkdf2 lib pw (fromHex s) 100000 32 (js ''sha512'')
       \<and> mk_salt (fst (deriveMasterKey lib pw (Some s) g1)) = toHex (fromHex s)
       \<and> snd (deriveMasterKey lib pw (Some s) g1) = g1
       \<and> (\<forall>b. s = toHex b \<longrightarrow> mk_salt (fst (deriveMasterKey lib pw (Some s) g1)) = s)
       \<and> deriveMasterKey lib pw (Some []) g1 = deriveMasterKey lib pw None g1"
  using assms
  by (simp add: deriveMasterKey_def Let_def PBKDF2_ITERATIONS_def KEY_LENGTH_def fromHex_toHex)

theorem deriveMasterKey_deterministic_witness:
  "js ''0a1b'' \<noteq> []
   \<and> fst (deriveMasterKey toy_crypto (js ''secret'') (Some (js ''0a1b'')) (\<lambda>i. 0))
       = fst (deriveMasterKey toy_crypto (js ''secret'') (Some (js ''0a1b'')) (\<lambda>i. 1))
   \<and> mk_salt (fst (deriveMasterKey toy_crypto (js ''secret'') (Some (js ''0a1b'')) (\<lambda>i. 0)))
       = js ''0a1b''
   \<and> key (fst (deriveMasterKey toy_crypto (js ''secret'') (Some (js ''0a1b'')) (\<lambda>i. 0)))
       = pbkdf2 toy_crypto (js ''secret'') [10, 27] 100000 32 (js ''sha512'')"
proof -
  have ne: "js ''0a1b'' \<noteq> []" by (simp add: js_def)
  have hx: "fromHex (js ''0a1b'') = [10, 27]" by (simp add: js_def hexValue_def)
  have th: "js ''0a1b'' = toHex [10, 27]" by (simp add: js_def toHex_def hexDigit_def)
  show ?thesis
    using deriveMasterKey_deterministic [OF ne, of toy_crypto "js ''secret''" "\<lambda>i. 0" "\<lambda>i. 1"]
      hx th ne
    by metis
qed

section \<open>Session validation\<close>

text \<open>
  C6 as stated (validation succeeds exactly when a row with the token exists and has
  not expired) fails: \<open>authenticate\<close> verifies the JWT before it looks the row up. Take
  a session row whose token is a JWT signed in second 0 for 24 hours and whose expiry
  is 86400500 ms: at 86400100 ms the row is there and not expired, and the request is
  rejected with \<open>Invalid token\<close>.
\<close>

theorem authenticate_live_row_rejected_counterexample:
  "list_ex (\<lambda>s. token s = [1, 0, 1] @ js ''k'' \<and> 86400100 < expiresAt s)
     (sessions (session_db 86400500))
   \<and> authenticate toy_env (session_db 86400500) 86400100
        (request (Some (js ''Bearer '' @ [1, 0, 1] @ js ''k'')) None ())
       = Respond (failure 401 ''Invalid token'')"
  by (simp add: authenticate_def authenticate_catch_def startsWith_def substring_def toy_simps
      session_db_def db_simps Let_def)

text \<open>
  C6, amended: \<open>authenticate\<close> passes the request on exactly when the header is a bearer
  header, the JWT secret is configured, the JWT verifies at validation time, both
  tables answer, a session row with the token exists whose expiry is later than the
  validation time, and the user named by the JWT exists. When the JWT verifies and no
  such row exists (absent, or expired: nothing but this comparison at validation time
  enforces expiry), the answer is 401 \<open>Invalid or expired session\<close>.
\<close>

theorem authenticate_validates_iff:
  "((\<exists>req'. authenticate e db now req = Next req') =
     (\<exists>h secret decoded.
        authorization req = Some h \<and> startsWith h (js ''Bearer '')
        \<and> JWT_SECRET e = Some secret \<and> secret \<noteq> []
        \<and> jwt_verify e (substring h 7) secret now = Inr decoded
        \<and> sessions_table \<notin> set (offline db) \<and> users_table \<notin> set (offline db)
        \<and> list_ex (\<lambda>s. token s = substring h 7 \<and> now < expiresAt s) (sessions db)
        \<and> list_ex (\<lambda>u. user_id u = userId decoded) (users db)))
   \<and> (\<forall>h secret decoded.
        authorization req = Some h \<and> startsWith h (js ''Bearer '')
        \<and> JWT_SECRET e = Some secret \<and> secret \<noteq> []
        \<and> jwt_verify e (substring h 7) secret now = Inr decoded
        \<and> sessions_table \<notin> set (offline db)
        \<and> \<not> list_ex (\<lambda>s. token s = substring h 7 \<and> now < expiresAt s) (sessions db)
        \<longrightarrow> authenticate e db now req = Respond (failure 401 ''Invalid or expired session''))"
proof (intro conjI allI impI iffI)
  assume "\<exists>req'. authenticate e db now req = Next req'"
  then obtain req' where "authenticate e db now req = Next req'" ..
  from authenticate_NextD [OF this]
  show "\<exists>h secret decoded.
        authorization req = Some h \<and> startsWith h (js ''Bearer '')
        \<and> JWT_SECRET e = Some secret \<and> secret \<noteq> []
        \<and> jwt_verify e (substring h 7) secret now = Inr decoded
        \<and> sessions_table \<notin> set (offline db) \<and> users_table \<notin> set (offline db)
        \<and> list_ex (\<lambda>s. token s = substring h 7 \<and> now < expiresAt s) (sessions db)
        \<and> list_ex (\<lambda>u. user_id u = userId decoded) (users db)"
    by (fastforce simp: select_sessions_def select_users_by_id_def list_ex_iff filter_empty_conv
        split: if_splits dest: arg_cong [where f = set])
next
  assume "\<exists>h secret decoded.
        authorization req = Some h \<and> startsWith h (js ''Bearer '')
        \<and> JWT_SECRET e = Some secret \<and> secret \<noteq> []
        \<and> jwt_verify e (substring h 7) secret now = Inr decoded
        \<and> sessions_table \<notin> set (offline db) \<and> users_table \<notin> set (offline db)
        \<and> list_ex (\<lambda>s. token s = substring h 7 \<and> now < expiresAt s) (sessions db)
        \<and> list_ex (\<lambda>u. user_id u = userId decoded) (users db)"
  then obtain h secret decoded where a:
        "authorization req = Some h" "startsWith h (js ''Bearer '')"
        "JWT_SECRET e = Some secret" "secret \<noteq> []"
        "jwt_verify e (substring h 7) secret now = Inr decoded"
        "sessions_table \<notin> set (offline db)" "users_table \<notin> set (offline db)"
        "list_ex (\<lambda>s. token s = substring h 7 \<and> now < expiresAt s) (sessions db)"
        "list_ex (\<lambda>u. user_id u = userId decoded) (users db)"
    by blast
  from a(8) have s: "filter (\<lambda>s. token s = substring h 7 \<and> now < expiresAt s) (sessions db) \<noteq> []"
    by (auto simp: list_ex_iff filter_empty_conv)
  from a(9) have "filter (\<lambda>u. user_id u = userId decoded) (users db) \<noteq> []"
    by (auto simp: list_ex_iff filter_empty_conv)
  then obtain u us where u: "filter (\<lambda>u. user_id u = userId decoded) (users db) = u # us"
    by (cases "filter (\<lambda>u. user_id u = userId decoded) (users db)") auto
  have ss: "select_sessions db (substring h 7) now
      = Inr (filter (\<lambda>s. token s = substring h 7 \<and> now < expiresAt s) (sessions db))"
    using a(6) by (simp add: select_sessions_def)
  have su: "select_users_by_id db (userId decoded) = Inr (u # us)"
    using a(7) u by (simp add: select_users_by_id_def)
  have "authenticate e db now req = Next (req\<lparr>user := Some u\<rparr>)"
    by (rule authenticate_NextI [OF a(1-5) ss s su])
  then show "\<exists>req'. authenticate e db now req = Next req'" ..
next
  fix h secret decoded
  assume "authorization req = Some h \<and> startsWith h (js ''Bearer '')
        \<and> JWT_SECRET e = Some secret \<and> secret \<noteq> []
        \<and> jwt_verify e (substring h 7) secret now = Inr decoded
        \<and> sessions_table \<notin> set (offline db)
        \<and> \<not> list_ex (\<lambda>s. token s = substring h 7 \<and> now < expiresAt s) (sessions db)"
  then show "authenticate e db now req = Respond (failure 401 ''Invalid or expired session'')"
    using startsWith_nonempty [of h]
    by (auto simp: authenticate_def Let_def select_sessions_def list_ex_iff filter_empty_conv)
qed

theorem authenticate_validates_iff_witness:
  "(\<exists>req'. authenticate toy_env (session_db 86400500) 600
            (request (Some (js ''Bearer '' @ [1, 0, 1] @ js ''k'')) None ()) = Next req')
   \<and> authenticate toy_env (session_db 100) 600
            (request (Some (js ''Bearer '' @ [1, 0, 1] @ js ''k'')) None ())
       = Respond (failure 401 ''Invalid or expired session'')"
proof -
  let ?h = "js ''Bearer '' @ [1, 0, 1] @ js ''k''"
  let ?req = "request (Some ?h) None ()"
  let ?d = "\<lparr>userId = 1, email = [], iat = 0, exp = 86400\<rparr>"
  note T1 = authenticate_validates_iff [of toy_env "session_db 86400500" 600 ?req, THEN conjunct1]
  note T2 = authenticate_validates_iff [of toy_env "session_db 100" 600 ?req, THEN conjunct2,
      rule_format, of ?h "js ''k''" ?d]
  have a: "\<exists>req'. authenticate toy_env (session_db 86400500) 600 ?req = Next req'"
    apply (subst T1)
    apply (rule exI [of _ ?h], rule exI [of _ "js ''k''"], rule exI [of _ ?d])
    apply (simp add: toy_simps session_db_def startsWith_def substring_def)
    done
  have b: "authenticate toy_env (session_db 100) 600 ?req
      = Respond (failure 401 ''Invalid or expired session'')"
    by (rule T2) (simp add: toy_simps session_db_def startsWith_def substring_def)
  from a b show ?thesis by simp
qed

section \<open>Token refresh\<close>

text \<open>
  The route: after a request has passed \<open>authenticate\<close>, the handler runs with \<open>this\<close>
  undefined, signs the new token and throws at \<open>this.db\<close>.
\<close>

lemma refresh_route_unbound:
  assumes "authenticate e db now req = Next req'"
  shows "refresh_route e db now req = (failure 500 ''Failed to refresh token'', db)"
proof -
  from authenticate_NextD [OF assms] obtain h secret u where
    a: "authorization req = Some h" "startsWith h (js ''Bearer '')"
    "JWT_SECRET e = Some secret" "secret \<noteq> []" "req' = req\<lparr>user := Some u\<rparr>"
    by auto
  show ?thesis
    using a startsWith_nonempty [of h]
    by (simp add: refresh_route_def assms refreshToken_def this_db_def Let_def)
qed

text \<open>
  C5 (after a successful refresh the old token no longer validates and the new one
  does): no refresh succeeds. Whatever the request, \<open>POST /auth/refresh\<close> reports no
  success and leaves the store as it was; when the presented token validates, the
  answer is 500 \<open>Failed to refresh token\<close>, no new token is returned or stored, and the
  presented token validates afterwards as it did before.
\<close>

theorem refresh_route_never_replaces_token:
  "\<not> success (fst (refresh_route e db now req))
   \<and> snd (refresh_route e db now req) = db
   \<and> (\<forall>req'. authenticate e db now req = Next req' \<longrightarrow>
        refresh_route e db now req = (failure 500 ''Failed to refresh token'', db)
        \<and> authenticate e (snd (refresh_route e db now req)) now req = Next req')"
proof (cases "authenticate e db now req")
  case (Respond r)
  then show ?thesis
    using authenticate_Respond_failure [OF Respond] by (simp add: refresh_route_def)
next
  case (Next req')
  then show ?thesis
    using refresh_route_unbound [OF Next] by (simp add: failure_def)
qed

theorem refresh_route_never_replaces_token_witness:
  "(let req = request (Some (js ''Bearer '' @ [1, 0, 1] @ js ''k'')) None () in
    authenticate toy_env (session_db 86400500) 7000 req = Next (req\<lparr>user := Some alice\<rparr>)
    \<and> refresh_route toy_env (session_db 86400500) 7000 req
        = (failure 500 ''Failed to refresh token'', session_db 86400500)
    \<and> authenticate toy_env (snd (refresh_route toy_env (session_db 86400500) 7000 req)) 7000 req
        = Next (req\<lparr>user := Some alice\<rparr>))"
proof -
  let ?req = "request (Some (js ''Bearer '' @ [1, 0, 1] @ js ''k'')) None ()"
  have auth: "authenticate toy_env (session_db 86400500) 7000 ?req
      = Next (?req\<lparr>user := Some alice\<rparr>)"
    by (simp add: authenticate_def startsWith_def substring_def toy_simps session_db_def
        db_simps Let_def)
  from refresh_route_never_replaces_token [of toy_env "session_db 86400500" 7000 ?req] auth
  show ?thesis unfolding Let_def by blast
qed

subsection \<open>The handler invoked as a method\<close>

text \<open>
  What \<open>refreshToken\<close> has done when it answers with a token, which it does only when
  it is invoked as a method of the class.
\<close>

lemma refreshToken_okD:
  assumes "refreshToken this e db now req = (r, db')" "data r = Some (TokenData new)"
    "authorization req = Some h" "startsWith h (js ''Bearer '')"
  shows "\<exists>u secret. user req = Some u \<and> JWT_SECRET e = Some secret \<and> secret \<noteq> []
           \<and> new = jwt_sign e (user_id u, user_email u) secret ''24h'' now
           \<and> this = This_class
           \<and> update_session_token db new (addDays e now 1) (substring h 7) = Inr db'"
  using assms startsWith_nonempty [of h]
  by (cases this)
     (auto simp: refreshToken_def this_db_def failure_def ok_def Let_def
      split: option.splits if_splits sum.splits)

lemma update_session_token_InrD:
  assumes "update_session_token db new ex old = Inr db'"
  shows "sessions db' =
           map (\<lambda>s. if token s = old then s\<lparr>token := new, expiresAt := ex\<rparr> else s) (sessions db)
         \<and> users db' = users db \<and> offline db' = offline db
         \<and> sessions_table \<notin> set (offline db)"
  using assms by (auto simp: update_session_token_def split: if_splits)

text \<open>
  If \<open>AuthController.refreshToken(req, res)\<close> is called on a request that passed
  \<open>authenticate\<close> and answers with a token, the single \<open>UPDATE\<close> has replaced the token
  of the row: no row is added or removed, the row holds the new token with the new
  expiry, and the new token passes \<open>authenticate\<close> (given that the JWT library verifies
  the token it has just signed, returns the user it was signed for, and that the new
  expiry is later than now). The old token is rejected from then on if the new token
  differs from it, and passes as before if the new token is the same string.
\<close>

lemma refreshToken_method_replaces_token:
  assumes auth: "authenticate e db now req = Next req'"
    and hdr: "authorization req = Some h"
    and ref: "refreshToken this e db now req' = (r, db')"
    and tok: "data r = Some (TokenData new)"
    and secret: "JWT_SECRET e = Some secret"
    and usr: "user req' = Some u"
    and sound: "jwt_verify e new secret now = Inr d" "userId d = user_id u"
    and later: "now < addDays e now 1"
  shows "(new \<noteq> substring h 7 \<longrightarrow>
            (\<forall>t q q'. authorization q = Some h \<longrightarrow> authenticate e db' t q \<noteq> Next q')
            \<and> (\<forall>s \<in> set (sessions db'). token s \<noteq> substring h 7))
       \<and> (new = substring h 7 \<longrightarrow> authenticate e db' now req = Next req')
       \<and> (\<exists>q'. authenticate e db' now (req\<lparr>authorization := Some (js ''Bearer '' @ new)\<rparr>)
                  = Next q')
       \<and> map session_id (sessions db') = map session_id (sessions db)
       \<and> list_ex (\<lambda>s. token s = new \<and> expiresAt s = addDays e now 1) (sessions db')"
proof -
  let ?old = "substring h 7"
  from authenticate_NextD [OF auth] hdr secret usr
  obtain decoded rows us where a:
    "startsWith h (js ''Bearer '')" "secret \<noteq> []"
    "jwt_verify e ?old secret now = Inr decoded"
    "select_sessions db ?old now = Inr rows" "rows \<noteq> []"
    "select_users_by_id db (userId decoded) = Inr (u # us)"
    "req' = req\<lparr>user := Some u\<rparr>"
    by auto
  have hdr': "authorization req' = Some h" using a(7) hdr by simp
  from refreshToken_okD [OF ref tok hdr' a(1)] usr secret
  have upd: "update_session_token db new (addDays e now 1) ?old = Inr db'" by auto
  note U = update_session_token_InrD [OF upd]
  have sess: "sessions db' =
      map (\<lambda>s. if token s = ?old then s\<lparr>token := new, expiresAt := addDays e now 1\<rparr> else s)
        (sessions db)"
    using U by simp
  have c1: "(\<forall>t q q'. authorization q = Some h \<longrightarrow> authenticate e db' t q \<noteq> Next q')
            \<and> (\<forall>s \<in> set (sessions db'). token s \<noteq> ?old)"
    if diff: "new \<noteq> ?old"
  proof -
    have no_old: "\<forall>s \<in> set (sessions db'). token s \<noteq> ?old"
      using diff by (auto simp: sess)
    have "authenticate e db' t q \<noteq> Next q'" if q: "authorization q = Some h"
      for t and q :: "'c Request" and q'
    proof
      assume n: "authenticate e db' t q = Next q'"
      from authenticate_NextD [OF n] q obtain rows' where
        "select_sessions db' ?old t = Inr rows'" "rows' \<noteq> []" by auto
      then show False using no_old
        by (auto simp: select_sessions_def filter_empty_conv split: if_splits)
    qed
    with no_old show ?thesis by blast
  qed
  from a(4,5) obtain s0 where s0: "s0 \<in> set (sessions db)" "token s0 = ?old"
    by (auto simp: select_sessions_def filter_empty_conv split: if_splits)
  then have new_row: "s0\<lparr>token := new, expiresAt := addDays e now 1\<rparr> \<in> set (sessions db')"
    by (force simp: sess)
  have live: "filter (\<lambda>s. token s = new \<and> now < expiresAt s) (sessions db') \<noteq> []"
    using new_row later by (force simp: filter_empty_conv)
  have ss: "select_sessions db' new now
      = Inr (filter (\<lambda>s. token s = new \<and> now < expiresAt s) (sessions db'))"
    using U by (simp add: select_sessions_def)
  from a(6) have uon: "users_table \<notin> set (offline db)"
    and uf: "filter (\<lambda>x. user_id x = userId decoded) (users db) = u # us"
    by (auto simp: select_users_by_id_def split: if_splits)
  have su_old: "select_users_by_id db' (userId decoded) = Inr (u # us)"
    using U uon uf by (simp add: select_users_by_id_def)
  have c2: "authenticate e db' now req = Next req'" if same: "new = ?old"
    unfolding a(7)
    by (rule authenticate_NextI [OF hdr a(1) secret a(2) a(3) _ _ su_old])
       (use ss live same in simp_all)
  from uf have "u \<in> set (filter (\<lambda>x. user_id x = userId decoded) (users db))" by simp
  then have uin: "u \<in> set (users db)" by simp
  then have "filter (\<lambda>x. user_id x = user_id u) (users db') \<noteq> []"
    using U by (auto simp: filter_empty_conv)
  then obtain u' us' where "filter (\<lambda>x. user_id x = user_id u) (users db') = u' # us'"
    by (cases "filter (\<lambda>x. user_id x = user_id u) (users db')") auto
  then have su: "select_users_by_id db' (userId d) = Inr (u' # us')"
    using U uon sound(2) by (simp add: select_users_by_id_def)
  let ?q = "req\<lparr>authorization := Some (js ''Bearer '' @ new)\<rparr>"
  have "authenticate e db' now ?q = Next (?q\<lparr>user := Some u'\<rparr>)"
    by (rule authenticate_NextI [where h = "js ''Bearer '' @ new" and secret = secret
          and decoded = d and rows = "filter (\<lambda>s. token s = new \<and> now < expiresAt s) (sessions db')"
          and us = us'])
       (simp_all add: startsWith_Bearer substring_Bearer secret a(2) sound(1) ss live su)
  then have c3: "\<exists>q'. authenticate e db' now ?q = Next q'" ..
  have c4: "map session_id (sessions db') = map session_id (sessions db)"
    by (simp add: sess comp_def if_distrib [of session_id] cong: if_cong)
  have c5: "list_ex (\<lambda>s. token s = new \<and> expiresAt s = addDays e now 1) (sessions db')"
    using new_row by (force simp: list_ex_iff)
  from c1 c2 c3 c4 c5 show ?thesis by blast
qed

lemma refreshToken_method_example:
  "(let old_req = request (Some (js ''Bearer '' @ [1, 0, 1] @ js ''k'')) None ();
        new_req = request (Some (js ''Bearer '' @ [1, 7, 1] @ js ''k'')) None ();
        (r, db') = refreshToken This_class toy_env (session_db 86400500) 7000
                     (old_req\<lparr>user := Some alice\<rparr>)
    in authenticate toy_env (session_db 86400500) 7000 old_req
         = Next (old_req\<lparr>user := Some alice\<rparr>)
       \<and> data r = Some (TokenData ([1, 7, 1] @ js ''k''))
       \<and> (\<forall>q'. authenticate toy_env db' 7000 old_req \<noteq> Next q')
       \<and> (\<exists>q'. authenticate toy_env db' 7000 new_req = Next q')
       \<and> map session_id (sessions db') = [77])"
proof -
  let ?h = "js ''Bearer '' @ [1, 0, 1] @ js ''k''"
  let ?new = "[1, 7, 1] @ js ''k''"
  let ?req = "request (Some ?h) None ()"
  let ?req' = "?req\<lparr>user := Some alice\<rparr>"
  let ?r = "ok 200 None (Some (TokenData ?new))"
  let ?db' = "toy_db\<lparr>sessions :=
       [\<lparr>session_id = 77, session_userId = 1, token = ?new, expiresAt = 86407000,
         session_createdAt = 500, userAgent = None, ipAddress = Some (js ''10.0.0.7'')\<rparr>]\<rparr>"
  let ?d = "\<lparr>userId = 1, email = [], iat = 7, exp = 86407\<rparr>"
  have auth: "authenticate toy_env (session_db 86400500) 7000 ?req = Next ?req'"
    by (simp add: authenticate_def startsWith_def substring_def toy_simps session_db_def
        db_simps Let_def)
  have hdr: "authorization ?req = Some ?h" by (simp add: request_def)
  have ref: "refreshToken This_class toy_env (session_db 86400500) 7000 ?req' = (?r, ?db')"
    by (simp add: refreshToken_def this_db_def startsWith_def substring_def toy_simps
        session_db_def db_simps Let_def)
  have tok: "data ?r = Some (TokenData ?new)" by (simp add: ok_def)
  have diff: "?new \<noteq> substring ?h 7" by (simp add: substring_def js_def)
  have secret: "JWT_SECRET toy_env = Some (js ''k'')" by (simp add: toy_env_def)
  have usr: "user ?req' = Some alice" by simp
  have sound: "jwt_verify toy_env ?new (js ''k'') 7000 = Inr ?d" "userId ?d = user_id alice"
    by (simp_all add: toy_simps)
  have later: "7000 < addDays toy_env 7000 1" by (simp add: toy_env_def)
  note T = refreshToken_method_replaces_token [OF auth hdr ref tok secret usr sound later]
  from T diff have a: "\<forall>q'. authenticate toy_env ?db' 7000 ?req \<noteq> Next q'"
    using hdr by blast
  from T have b: "\<exists>q'. authenticate toy_env ?db' 7000
       (?req\<lparr>authorization := Some (js ''Bearer '' @ ?new)\<rparr>) = Next q'"
    by blast
  have nr: "?req\<lparr>authorization := Some (js ''Bearer '' @ ?new)\<rparr>
      = request (Some (js ''Bearer '' @ ?new)) None ()"
    by (simp add: request_def)
  from T have c: "map session_id (sessions ?db') = map session_id (sessions (session_db 86400500))"
    by blast
  have d: "data ?r = Some (TokenData ?new)" by (simp add: ok_def)
  have e: "map session_id (sessions ?db') = [77]"
    using c by (simp add: session_db_def)
  show ?thesis
    unfolding Let_def ref prod.case using auth a b d e unfolding nr by blast
qed

section \<open>Login\<close>

text \<open>
  The rows of \<open>users\<close> carry the column \<open>password_hash\<close>, so \<open>user.passwordHash\<close> is
  \<open>undefined\<close> and the comparison of the password throws.
\<close>

lemma verifyPassword_undefined:
  "verifyPassword e pw (user_prop u ''passwordHash'') = Inl IllegalArguments"
  by (simp add: verifyPassword_def user_prop_def)

text \<open>
  A login with an email and a password: as a method call on the class it is answered
  500 once the user row is found, and as the route calls it, at the first \<open>this.db\<close>.
\<close>

lemma login_bound_existing:
  assumes "login_email (body req) = Some em" "em \<noteq> []"
    "login_password (body req) = Some pw" "pw \<noteq> []"
    "select_users_by_email db (toLowerCase e em) = Inr (u # rest)"
  shows "login This_class e db now uuid req = (failure 500 ''Login failed'', db)"
  using assms by (simp add: login_def this_db_def verifyPassword_undefined)

lemma login_unbound:
  assumes "login_email (body req) = Some em" "em \<noteq> []"
    "login_password (body req) = Some pw" "pw \<noteq> []"
  shows "login This_undefined e db now uuid req = (failure 500 ''Login failed'', db)"
  using assms by (simp add: login_def this_db_def)

text \<open>
  C4 (every failed login gets the same external response, the reason being recorded
  in the audit trail only): a login request that carries an email and a password is
  answered 500 \<open>Login failed\<close> by \<open>POST /auth/login\<close>, whatever the password and the
  one-time code, and the store, the audit trail included, is left as it was. The same
  holds when the handler is invoked as a method and the account exists. So neither
  the 401 and 400 answers of the three checks nor the \<open>LOGIN_FAILED\<close> audit events
  ever occur.
\<close>

theorem login_failures_answer_500:
  assumes "login_email (body req) = Some em" "em \<noteq> []"
    and "login_password (body req) = Some pw" "pw \<noteq> []"
  shows "login_route e db now uuid req = (failure 500 ''Login failed'', db)
       \<and> (\<forall>u rest. select_users_by_email db (toLowerCase e em) = Inr (u # rest) \<longrightarrow>
            login This_class e db now uuid req = (failure 500 ''Login failed'', db))"
  using assms by (simp add: login_route_def login_unbound login_bound_existing)

theorem login_failures_answer_500_witness:
  "login_route toy_env toy_db 65000 77
     (login_request ''bob@example.com'' ''wrong-password'' None)
     = (failure 500 ''Login failed'', toy_db)
   \<and> login_route toy_env toy_db 65000 77
     (login_request ''bob@example.com'' ''hunter2hunter2'' None)
     = (failure 500 ''Login failed'', toy_db)
   \<and> login_route toy_env toy_db 65000 77
     (login_request ''bob@example.com'' ''hunter2hunter2'' (Some (js ''000000'')))
     = (failure 500 ''Login failed'', toy_db)
   \<and> login This_class toy_env toy_db 65000 77
     (login_request ''bob@example.com'' ''wrong-password'' None)
     = (failure 500 ''Login failed'', toy_db)
   \<and> login This_class toy_env toy_db 65000 77
     (login_request ''bob@example.com'' ''hunter2hunter2'' (Some (js ''000000'')))
     = (failure 500 ''Login failed'', toy_db)"
proof -
  let ?r = "\<lambda>pw c. login_request ''bob@example.com'' pw c"
  have b: "login_email (body (?r pw c)) = Some (js ''bob@example.com'')"
    "login_password (body (?r pw c)) = Some (js pw)" for pw c
    by (simp_all add: login_request_def request_def)
  have ne: "js ''bob@example.com'' \<noteq> []" "js ''wrong-password'' \<noteq> []"
    "js ''hunter2hunter2'' \<noteq> []"
    by (simp_all add: js_def)
  have sel: "select_users_by_email toy_db (toLowerCase toy_env (js ''bob@example.com''))
      = Inr (bob # [])"
    by (simp add: toy_simps db_simps)
  note T1 = login_failures_answer_500
      [OF b(1) [of "''wrong-password''" None] ne(1) b(2) [of "''wrong-password''" None] ne(2),
       of toy_env toy_db 65000 77]
  note T2 = login_failures_answer_500
      [OF b(1) [of "''hunter2hunter2''" None] ne(1) b(2) [of "''hunter2hunter2''" None] ne(3),
       of toy_env toy_db 65000 77]
  note T3 = login_failures_answer_500
      [OF b(1) [of "''hunter2hunter2''" "Some (js ''000000'')"] ne(1)
          b(2) [of "''hunter2hunter2''" "Some (js ''000000'')"] ne(3),
       of toy_env toy_db 65000 77]
  from T1 T2 T3 sel show ?thesis by blast
qed

text \<open>
  C9 (for an account with a second factor, a TOTP check that accepts the current and
  the adjacent windows precedes the session): \<open>login\<close> never reports success and
  never changes the store, as the route calls it or as a method, whatever the account,
  the password and the code; in particular it adds no session row. The one-time check
  is not reached: the comparison of the password throws before it, and
  \<open>user.twoFactorEnabled\<close> is \<open>undefined\<close> on a row of \<open>users\<close>.
\<close>

theorem login_never_issues_session:
  "\<not> success (fst (login this e db now uuid req))
   \<and> snd (login this e db now uuid req) = db
   \<and> \<not> success (fst (login_route e db now uuid req))
   \<and> sessions (snd (login_route e db now uuid req)) = sessions db"
proof -
  have "\<not> success (fst (login t e db now uuid req)) \<and> snd (login t e db now uuid req) = db"
    for t
    by (simp add: login_def failure_def verifyPassword_undefined
        split: option.split sum.split list.split)
  then show ?thesis by (simp add: login_route_def)
qed

section \<open>Registration\<close>

text \<open>
  C10: a registration request with a required field missing or empty, with password
  and confirmation different, or with a password shorter than 12 code units is answered
  with status 400 and leaves the store as it was (no user row, no audit event).
\<close>

theorem register_validation_failure:
  assumes "falsy (reg_email (body req)) \<or> falsy (reg_password (body req))
           \<or> falsy (confirmPassword (body req))
           \<or> reg_password (body req) \<noteq> confirmPassword (body req)
           \<or> (\<exists>pw. reg_password (body req) = Some pw \<and> length pw < 12)"
  shows "status (fst (register this e db now g req)) = 400
       \<and> success (fst (register this e db now g req)) = False
       \<and> snd (register this e db now g req) = db"
  using assms
  by (auto simp: register_def falsy_def failure_def split: option.splits)

theorem register_validation_failure_witness:
  "(let r = register This_class toy_env toy_db 500 (\<lambda>i. 0)
              (register_request ''carol@example.com'' ''short'' ''short'')
    in status (fst r) = 400 \<and> success (fst r) = False \<and> snd r = toy_db
       \<and> users (snd r) = [alice, bob] \<and> security_audit (snd r) = [])"
proof -
  let ?req = "register_request ''carol@example.com'' ''short'' ''short''"
  have "\<exists>pw. reg_password (body ?req) = Some pw \<and> length pw < 12"
    by (simp add: register_request_def request_def js_def)
  then have h: "falsy (reg_email (body ?req)) \<or> falsy (reg_password (body ?req))
           \<or> falsy (confirmPassword (body ?req))
           \<or> reg_password (body ?req) \<noteq> confirmPassword (body ?req)
           \<or> (\<exists>pw. reg_password (body ?req) = Some pw \<and> length pw < 12)"
    by blast
  from register_validation_failure [OF h, of This_class toy_env toy_db 500 "\<lambda>i. 0"]
  show ?thesis by (simp add: Let_def toy_db_def)
qed

section \<open>Audit failures\<close>

lemma insert_audit_offline:
  "security_audit_table \<in> set (offline db) \<Longrightarrow> insert_audit db a b c d f g = Inl DbError"
  by (simp add: insert_audit_def)

lemma insert_credential_offline:
  "insert_credential db a b c d f g h i j k = Inr (r, db1) \<Longrightarrow> offline db1 = offline db"
  by (auto simp: insert_credential_def Let_def split: if_splits)








text \<open>
  The two ways a valid \<open>create\<close> fails while the audit table rejects writes: invoked
  as a method it inserts the credential and is answered 500 when the audit insert
  throws, so the row stays; as the route calls it, it is answered 500 at the first
  \<open>this.db\<close> and nothing is stored.
\<close>

lemma create_method_audit_failure:
  assumes off: "security_audit_table \<in> set (offline db)"
    and a: "user creq = Some u" "new_title (body creq) = Some t" "t \<noteq> []"
      "new_username (body creq) = Some un" "un \<noteq> []"
      "new_password (body creq) = Some pw" "pw \<noteq> []"
      "new_folderId (body creq) = None"
      "insert_credential db (user_id u) t un pw
                 (if falsy (new_url (body creq)) then None else new_url (body creq))
                 (if falsy (new_notes (body creq)) then None else new_notes (body creq))
                 None
                 (case new_tags (body creq) of None \<Rightarrow> [] | Some tg \<Rightarrow> tg)
                 (case new_favorite (body creq) of None \<Rightarrow> False | Some b \<Rightarrow> b)
                 now = Inr (c, db1)"
  shows "create This_class e db now creq = (failure 500 ''Failed to create credential'', db1)
       \<and> credentials db1 = credentials db @ [c]
       \<and> create This_undefined e db now creq = (failure 500 ''Failed to create credential'', db)"
proof -
  from a have off1: "security_audit_table \<in> set (offline db1)"
    using off by (auto dest!: insert_credential_offline)
  from a have cr: "credentials db1 = credentials db @ [c]"
    by (auto simp: insert_credential_def Let_def split: if_splits)
  from a have "create This_class e db now creq = (failure 500 ''Failed to create credential'', db1)"
    by (simp add: create_def create_store_def folder_valid_def this_db_def
        insert_audit_offline [OF off1])
  moreover from a have
    "create This_undefined e db now creq = (failure 500 ''Failed to create credential'', db)"
    by (simp add: create_def create_store_def folder_valid_def this_db_def)
  ultimately show ?thesis using cr by simp
qed

section \<open>Password history\<close>

lemma update_store_history:
  "password_history (snd (update_store this e db now req u)) = password_history db"
  by (cases this)
     (auto simp: update_store_def this_db_def update_credential_def insert_audit_def Let_def
      split: sum.splits list.splits if_splits)

lemma update_history:
  "password_history (snd (update this e db now req)) = password_history db"
  by (simp add: update_def update_store_history
      split: option.split sum.split list.split bool.split)

text \<open>
  C7 (before a password is overwritten, the previous envelope is appended to the
  password history): no statement of \<open>update\<close> writes the \<open>password_history\<close> table.
  After any sequence of updates, whatever fields they set, the history is what it was
  before the first.
\<close>

theorem update_never_appends_history:
  "password_history (fold (\<lambda>(now, req) d. snd (update this e d now req)) rs db)
   = password_history db"
  by (induction rs arbitrary: db) (simp_all add: update_history split: prod.split)

end
